theory Spec2Isabelle
  imports Complex_Main "HOL-Library.Word"
begin

section \<open>Data model of the level-set engines (LevelSetMesh.cpp)\<close>

text \<open>
  A value of the C++ type \<open>double\<close> is a real number. Cell identifiers (\<open>long\<close>) and loop
  counters are \<open>int\<close>; the octree level handed to \<open>computeRSearchFromLevel\<close> is a
  \<open>uint8_t\<close>, modelled by \<open>8 word\<close>. A \<open>std::array<double,3>\<close> is a function from the
  component index to its value.

  In the Eikonal solve, where a claim depends on it, every arithmetic operation on doubles
  returns the exact result rounded to the nearest double, ties to even (IEEE 754 binary64:
  53 significant bits, least exponent \<open>-1074\<close>): \<open>fl\<close>. Results beyond the largest double
  are not modelled. The two places where the result is not a number (a division by a zero
  coefficient, the square root of a negative discriminant) are branches of the model.
  The other formulas (the maximum of the spacings, the radius of a level, the snapping of
  the proxy box) are kept as the expressions the code writes.
\<close>

definition round_to_even :: "real \<Rightarrow> int" where
  "round_to_even x =
     (let f = \<lfloor>x\<rfloor>; d = x - real_of_int f
      in if d < 1 / 2 then f else if 1 / 2 < d then f + 1 else if even f then f else f + 1)"

definition fl :: "real \<Rightarrow> real" where
  "fl x = (if x = 0 then 0
           else (let e = max (\<lfloor>log 2 \<bar>x\<bar>\<rfloor> - 52) (- 1074)
                 in real_of_int (round_to_even (x / 2 powr e)) * 2 powr e))"

type_synonym darray3 = "nat \<Rightarrow> real"
type_synonym iarray3 = "nat \<Rightarrow> int"

text \<open>
  \<open>LSInfo\<close>, the record the narrow-band store keeps per cell. Its C++ field \<open>value\<close> is
  named \<open>lsvalue\<close> here.
\<close>

record LSInfo =
  lsvalue :: real
  active :: int

text \<open>
  The members of the base class \<open>LevelSet\<close> that the two engines read and write: the
  store \<open>info\<close> (a \<open>PiercedVector\<close> of \<open>LSInfo\<close>, kept as the list of its elements with
  their identifiers) and the search radius \<open>RSearch\<close>.
\<close>

record LevelSet =
  info :: "(int \<times> LSInfo) list"
  RSearch :: real

text \<open>
  The mesh kernel is not part of the engines. What they call on it is kept as the fields of
  a record per class: a cell (\<open>getId\<close>, \<open>getConnect\<close>, \<open>getAdjacency(face, 0)\<close>), the kernel
  shared by both mesh kinds, the Cartesian patch and the octree patch (with the two calls
  that go through \<open>getTree()\<close>).
\<close>

record Cell =
  getId :: int
  getConnect :: "nat \<Rightarrow> int"
  getAdjacency :: "int \<Rightarrow> int"

record VolumeKernel =
  getDimension :: int
  getCells :: "Cell list"
  getCell :: "int \<Rightarrow> Cell"
  getVertexCoords :: "int \<Rightarrow> darray3"
  getBoundingBox :: "darray3 \<times> darray3"

record VolCartesian = VolumeKernel +
  getSpacing :: "int \<Rightarrow> real"
  locateClosestVertexCartesian :: "darray3 \<Rightarrow> iarray3"
  getCellLinearId :: "int \<Rightarrow> int \<Rightarrow> int \<Rightarrow> int"

record VolOctree = VolumeKernel +
  getCellLevel :: "int \<Rightarrow> int"
  getLocalMinSize :: real
  levelToSize :: "8 word \<Rightarrow> real"

text \<open>
  An adaptation record (\<open>Adaption::Info\<close>): the entity kind and the identifiers before and
  after the change. The casts \<open>(long) parent\<close> and \<open>(long) child\<close> are the identity on the
  identifiers a mesh hands out.
\<close>

datatype Entity = ENTITY_UNKNOWN | ENTITY_VERTEX | ENTITY_CELL | ENTITY_INTERFACE

record AdaptionInfo =
  entity :: Entity
  previous :: "int list"
  current :: "int list"

text \<open>
  The surface object (\<open>LSObject\<close>) the engines visit. Its methods receive the engine; the
  model hands them the mesh and the engine state and takes the state they leave behind.
\<close>

record LSObject =
  getBoundingBoxLS :: "darray3 \<times> darray3"
  computeLSInNarrowBandC :: "VolCartesian \<Rightarrow> LevelSet \<Rightarrow> LevelSet"
  computeLSInNarrowBandO :: "VolOctree \<Rightarrow> LevelSet \<Rightarrow> LevelSet"
  updateLSInNarrowBandC :: "VolCartesian \<Rightarrow> LevelSet \<Rightarrow> AdaptionInfo list \<Rightarrow> real \<Rightarrow> LevelSet"
  updateLSInNarrowBandO :: "VolOctree \<Rightarrow> LevelSet \<Rightarrow> AdaptionInfo list \<Rightarrow> real \<Rightarrow> LevelSet"

text \<open>
  What the engines call on code that is not in LevelSetMesh.cpp, taken as parameters:
  the membership test \<open>isInNarrowBand\<close> of the base class (it reads the engine state),
  \<open>setSign\<close>, the constructor of the base class (the state of a new engine),
  \<open>CGElem::intersectBoxBox\<close> (its result and the two corners it writes) and the
  constructor of a Cartesian patch from an identifier, a dimension, an origin, the
  lengths and the numbers of cells.
\<close>

record External =
  isInNarrowBand :: "LevelSet \<Rightarrow> int \<Rightarrow> bool"
  setSign :: "bool \<Rightarrow> LevelSet \<Rightarrow> LevelSet"
  newLevelSet :: LevelSet
  intersectBoxBox :: "darray3 \<Rightarrow> darray3 \<Rightarrow> darray3 \<Rightarrow> darray3 \<Rightarrow> bool \<times> darray3 \<times> darray3"
  newVolCartesian :: "int \<Rightarrow> int \<Rightarrow> darray3 \<Rightarrow> darray3 \<Rightarrow> iarray3 \<Rightarrow> VolCartesian"

section \<open>LevelSetCartesian\<close>

subsection \<open>Sizing the band\<close>

text \<open>
  \<open>computeSizeNarrowBand\<close>: \<open>RSearch = -1\<close>, then one \<open>std::max\<close> per axis
  \<open>d = 0, ..., getDimension() - 1\<close>. The visitor is not used.
\<close>

definition LevelSetCartesian_computeSizeNarrowBand ::
  "VolCartesian \<Rightarrow> LSObject \<Rightarrow> LevelSet \<Rightarrow> LevelSet" where
  "LevelSetCartesian_computeSizeNarrowBand m_cmesh visitor this =
     this\<lparr>RSearch := fold (\<lambda>d r. max r (getSpacing m_cmesh d))
                           [0 .. getDimension m_cmesh - 1] (- 1)\<rparr>"

text \<open>\<open>updateSizeNarrowBand\<close>: the same loop on a local, which is returned.\<close>

definition LevelSetCartesian_updateSizeNarrowBand ::
  "VolCartesian \<Rightarrow> AdaptionInfo list \<Rightarrow> real" where
  "LevelSetCartesian_updateSizeNarrowBand m_cmesh mapper =
     fold (\<lambda>d newRSearch. max newRSearch (getSpacing m_cmesh d))
          [0 .. getDimension m_cmesh - 1] (- 1)"

text \<open>\<open>compute\<close> and \<open>update\<close> of the Cartesian engine.\<close>

definition LevelSetCartesian_compute ::
  "VolCartesian \<Rightarrow> LSObject \<Rightarrow> LevelSet \<Rightarrow> LevelSet" where
  "LevelSetCartesian_compute m_cmesh visitor this =
     computeLSInNarrowBandC visitor m_cmesh
       (LevelSetCartesian_computeSizeNarrowBand m_cmesh visitor this)"

definition LevelSetCartesian_update ::
  "VolCartesian \<Rightarrow> LSObject \<Rightarrow> AdaptionInfo list \<Rightarrow> LevelSet \<Rightarrow> LevelSet" where
  "LevelSetCartesian_update m_cmesh visitor mapper this =
     (let newRSearch = LevelSetCartesian_updateSizeNarrowBand m_cmesh mapper;
          this' = updateLSInNarrowBandC visitor m_cmesh this mapper newRSearch
      in this'\<lparr>RSearch := newRSearch\<rparr>)"

subsection \<open>The local Eikonal solve\<close>

datatype error =
  OutOfRange int  \<comment> \<open>\<open>info[J]\<close> for an identifier that has no element\<close>
  | NotFinite     \<comment> \<open>the double computed is not a number\<close>

text \<open>
  Modelled from the spec: the element access \<open>info[J]\<close> of the store (the container
  \<open>PiercedVector\<close> is not among the sources). The store is sparse and a cell outside the
  band holds no record at all, so the access has nothing to return for such an identifier:
  it fails.
\<close>

definition info_at :: "LevelSet \<Rightarrow> int \<Rightarrow> error + LSInfo" where
  "info_at this J =
     (case map_of (info this) J of None \<Rightarrow> Inl (OutOfRange J) | Some e \<Rightarrow> Inr e)"

text \<open>
  One pass of the loop body of \<open>updateEikonal\<close> up to the update of the coefficients:
  the upwind value of axis \<open>d\<close>. The reference \<open>lsInfo\<close> is bound once, to the element of
  the left neighbour \<open>J = getAdjacency(2*d, 0)\<close>, before \<open>J >= 0\<close> is tested; \<open>J\<close> is then
  assigned the right neighbour, and the second test reads \<open>lsInfo\<close> again. The literals
  \<open>1.0e+18\<close> and \<open>1.0e+17\<close> are doubles.
\<close>

definition upwindValue :: "LevelSet \<Rightarrow> real \<Rightarrow> Cell \<Rightarrow> int \<Rightarrow> error + real" where
  "upwindValue this s cell d =
     (let value = 10 ^ 18;
          J = getAdjacency cell (2 * d)
      in case info_at this J of
           Inl e \<Rightarrow> Inl e
         | Inr lsInfo \<Rightarrow>
             (let value = (if J \<ge> 0 \<and> active lsInfo = 0
                           then min (fl (s * lsvalue lsInfo)) value else value);
                  J = getAdjacency cell (2 * d + 1);
                  value = (if J \<ge> 0 \<and> active lsInfo = 0
                           then min (fl (s * lsvalue lsInfo)) value else value)
              in Inr value))"

text \<open>
  The loop over the axes, on the coefficients \<open>(a, b, c)\<close> of the quadratic form:
  \<open>h2 = pow(spacing, 2)\<close>, \<open>a += 1.0/h2\<close>, \<open>b += -2.0 * value/h2\<close>,
  \<open>c += pow(value, 2)/h2\<close>, each operation rounded. When \<open>h2\<close> is zero the C++
  coefficients become infinite and the result is not a number; the model stops there with
  \<open>NotFinite\<close>.
\<close>

fun quadraticForm ::
  "VolCartesian \<Rightarrow> LevelSet \<Rightarrow> real \<Rightarrow> Cell \<Rightarrow> int list \<Rightarrow> real \<times> real \<times> real
     \<Rightarrow> error + real \<times> real \<times> real" where
  "quadraticForm m_cmesh this s cell [] abc = Inr abc"
| "quadraticForm m_cmesh this s cell (d # ds) (a, b, c) =
     (case upwindValue this s cell d of
        Inl e \<Rightarrow> Inl e
      | Inr value \<Rightarrow>
          if value < 10 ^ 17 then
            (let h2 = fl ((getSpacing m_cmesh d) ^ 2)
             in if h2 = 0 then Inl NotFinite
                else quadraticForm m_cmesh this s cell ds
                       (fl (a + fl (1 / h2)),
                        fl (b + fl (fl (- 2 * value) / h2)),
                        fl (c + fl (fl (value ^ 2) / h2))))
          else quadraticForm m_cmesh this s cell ds (a, b, c))"

text \<open>
  \<open>updateEikonal(s, g, I)\<close>: \<open>delta = pow(b, 2) - 4.0*a*(c - pow(g, 2))\<close> and
  \<open>value = -(b - sqrt(delta))/(2.0*a)\<close>, each operation rounded. With no contributing axis
  \<open>a = b = c = 0\<close> and the quotient is \<open>0/0\<close>; with a negative discriminant \<open>sqrt\<close> returns
  a NaN.
\<close>

definition LevelSetCartesian_updateEikonal ::
  "VolCartesian \<Rightarrow> LevelSet \<Rightarrow> real \<Rightarrow> real \<Rightarrow> int \<Rightarrow> error + real" where
  "LevelSetCartesian_updateEikonal m_cmesh this s g I =
     (let cell = getCell m_cmesh I
      in case quadraticForm m_cmesh this s cell [0 .. getDimension m_cmesh - 1] (0, 0, 0) of
           Inl e \<Rightarrow> Inl e
         | Inr (a, b, c) \<Rightarrow>
             (let delta = fl (fl (b ^ 2) - fl (fl (4 * a) * fl (c - fl (g ^ 2))))
              in if a = 0 \<or> delta < 0 then Inl NotFinite
                 else Inr (fl (- fl (b - fl (sqrt delta)) / fl (2 * a)))))"

section \<open>LevelSetOctree\<close>

subsection \<open>From a level to a radius\<close>

text \<open>\<open>computeRSearchFromLevel(uint8_t level)\<close>.\<close>

definition computeRSearchFromLevel :: "VolOctree \<Rightarrow> 8 word \<Rightarrow> real" where
  "computeRSearchFromLevel m_omesh level = levelToSize m_omesh level * sqrt 11 / 2"

subsection \<open>Sizing the band on an octree\<close>

text \<open>
  The conversions of \<open>computeSizeNarrowBand\<close>: the cast \<open>(int)\<close> of a double truncates
  towards zero, \<open>round\<close> rounds halfway cases away from zero, and the \<open>long\<close> returned by
  \<open>getCellLinearId\<close> is stored in an \<open>int\<close> of 32 bits.
\<close>

definition int_cast :: "real \<Rightarrow> int" where
  "int_cast x = (if 0 \<le> x then \<lfloor>x\<rfloor> else \<lceil>x\<rceil>)"

definition round_away :: "real \<Rightarrow> int" where
  "round_away x = (if 0 \<le> x then \<lfloor>x + 1 / 2\<rfloor> else \<lceil>x - 1 / 2\<rceil>)"

definition long_to_int :: "int \<Rightarrow> int" where
  "long_to_int x = sint (word_of_int x :: 32 word)"

text \<open>
  The loop that snaps the enlarged intersection box to the lattice of the finest cell,
  one axis \<open>i\<close> after the other, on the locals \<open>(C0, C1, nc)\<close>.
\<close>

fun snapToGrid ::
  "darray3 \<Rightarrow> real \<Rightarrow> nat list \<Rightarrow> darray3 \<times> darray3 \<times> iarray3 \<Rightarrow> darray3 \<times> darray3 \<times> iarray3" where
  "snapToGrid octrBB0 minSize [] box = box"
| "snapToGrid octrBB0 minSize (i # axes) (C0, C1, nc) =
     (let C0 = C0(i := octrBB0 i + minSize * real_of_int (int_cast ((C0 i - octrBB0 i) / minSize)));
          C1 = C1(i := octrBB0 i + minSize * real_of_int (int_cast ((C1 i - octrBB0 i) / minSize) + 1));
          nc = nc(i := round_away ((C1 i - C0 i) / minSize))
      in snapToGrid octrBB0 minSize axes (C0, C1, nc))"

text \<open>
  The three nested loops over the proxy grid for one octree cell, \<open>_i\<close> innermost:
  each counter starts at the component of \<open>i0\<close> and runs while it is below the
  component of \<open>i1\<close>.
\<close>

definition sampleProxy :: "(int \<Rightarrow> bool) \<Rightarrow> VolCartesian \<Rightarrow> iarray3 \<Rightarrow> iarray3 \<Rightarrow> bool" where
  "sampleProxy auxInNarrowBand cmesh i0 i1 =
     fold (\<lambda>k flagged.
       fold (\<lambda>j flagged.
         fold (\<lambda>i flagged.
                 (let index = long_to_int (getCellLinearId cmesh i j k)
                  in flagged \<or> auxInNarrowBand index))
              [i0 0 .. i1 0 - 1] flagged)
            [i0 1 .. i1 1 - 1] flagged)
          [i0 2 .. i1 2 - 1] False"

text \<open>
  The body of the loop over the octree cells up to \<open>if(flagged)\<close>: the two diagonal
  vertices \<open>conn[j0]\<close> and \<open>conn[j1]\<close> (\<open>j0 = 0\<close>, \<open>j1 = 2^dimension - 1\<close> as a \<open>uint8_t\<close>),
  their closest proxy vertices, and the sampling.
\<close>

definition cellFlagged :: "(int \<Rightarrow> bool) \<Rightarrow> VolCartesian \<Rightarrow> VolOctree \<Rightarrow> Cell \<Rightarrow> bool" where
  "cellFlagged auxInNarrowBand cmesh m_omesh cell =
     (let j0 = 0;
          j1 = unat (word_of_int (2 ^ nat (getDimension m_omesh) - 1) :: 8 word);
          conn = getConnect cell;
          C0 = getVertexCoords m_omesh (conn j0);
          C1 = getVertexCoords m_omesh (conn j1);
          i0 = locateClosestVertexCartesian cmesh C0;
          i1 = locateClosestVertexCartesian cmesh C1
      in sampleProxy auxInNarrowBand cmesh i0 i1)"

text \<open>
  The loop over the cells on the local \<open>level\<close>, which starts at 100:
  \<open>if(flagged) level = std::min(level, getCellLevel(cell.getId()))\<close>.
\<close>

definition coarsestFlaggedLevel :: "(Cell \<Rightarrow> bool) \<Rightarrow> VolOctree \<Rightarrow> Cell list \<Rightarrow> int" where
  "coarsestFlaggedLevel flagged m_omesh cells =
     fold (\<lambda>cell level. if flagged cell then min level (getCellLevel m_omesh (getId cell)) else level)
          cells 100"

text \<open>
  The part of \<open>computeSizeNarrowBand\<close> that builds the proxy from the corners \<open>C0\<close>,
  \<open>C1\<close> of the intersection: the box is enlarged by the size of the finest cell and
  snapped, the Cartesian patch \<open>cmesh\<close> is constructed on it, and the engine \<open>auxLS\<close> on
  that patch is computed against a clone of the visitor. The array \<open>nc\<close> is a local
  without initialiser: its content before the loop is the argument \<open>nc\<close>. The local
  \<open>size\<close> is named \<open>minSize\<close>. \<open>visitor->clone()\<close> is the visitor itself, a value.
\<close>

definition proxy ::
  "External \<Rightarrow> iarray3 \<Rightarrow> VolOctree \<Rightarrow> LSObject \<Rightarrow> darray3 \<Rightarrow> darray3 \<Rightarrow> VolCartesian \<times> LevelSet" where
  "proxy ext nc m_omesh visitor C0 C1 =
     (let minSize = getLocalMinSize m_omesh;
          (octrBB0, octrBB1) = getBoundingBox m_omesh;
          C0 = (\<lambda>i. C0 i - minSize);
          C1 = (\<lambda>i. C1 i + minSize);
          (C0, C1, nc) = snapToGrid octrBB0 minSize [0 ..< nat (getDimension m_omesh)] (C0, C1, nc);
          cmesh = newVolCartesian ext 0 (getDimension m_omesh) C0 (\<lambda>i. C1 i - C0 i) nc;
          auxSe = visitor;
          auxLS = setSign ext False (newLevelSet ext);
          auxLS = LevelSetCartesian_compute cmesh auxSe auxLS
      in (cmesh, auxLS))"

text \<open>
  \<open>computeSizeNarrowBand\<close>: \<open>RSearch\<close> is assigned inside the \<open>if\<close> only.
\<close>

definition LevelSetOctree_computeSizeNarrowBand ::
  "External \<Rightarrow> iarray3 \<Rightarrow> VolOctree \<Rightarrow> LSObject \<Rightarrow> LevelSet \<Rightarrow> LevelSet" where
  "LevelSetOctree_computeSizeNarrowBand ext nc m_omesh visitor this =
     (let (octrBB0, octrBB1) = getBoundingBox m_omesh;
          (triBB0, triBB1) = getBoundingBoxLS visitor;
          (intersect, C0, C1) = intersectBoxBox ext octrBB0 octrBB1 triBB0 triBB1
      in if intersect then
           (let (cmesh, auxLS) = proxy ext nc m_omesh visitor C0 C1;
                level = coarsestFlaggedLevel (cellFlagged (isInNarrowBand ext auxLS) cmesh m_omesh)
                          m_omesh (getCells m_omesh)
            in this\<lparr>RSearch := computeRSearchFromLevel m_omesh (word_of_int level)\<rparr>)
         else this)"

text \<open>\<open>compute\<close> of the octree engine: the visitor is called in both cases.\<close>

definition LevelSetOctree_compute ::
  "External \<Rightarrow> iarray3 \<Rightarrow> VolOctree \<Rightarrow> LSObject \<Rightarrow> LevelSet \<Rightarrow> LevelSet" where
  "LevelSetOctree_compute ext nc m_omesh visitor this =
     computeLSInNarrowBandO visitor m_omesh
       (LevelSetOctree_computeSizeNarrowBand ext nc m_omesh visitor this)"

subsection \<open>Updating the band after an adaptation\<close>

text \<open>
  The local \<open>nb\<close> is a \<open>PiercedVector\<close> of identifiers stored under themselves; only which
  identifiers it holds is read afterwards, so it is modelled by the set of these
  identifiers: \<open>insert(id, id)\<close> adds one, \<open>erase(id, true)\<close> followed by \<open>flush()\<close> removes one.

  First loop: every identifier of the store that is in the narrow band goes into \<open>nb\<close>.
\<close>

definition snapshotBand :: "External \<Rightarrow> LevelSet \<Rightarrow> int set" where
  "snapshotBand ext this =
     fold (\<lambda>id nb. if isInNarrowBand ext this id then insert id nb else nb)
          (map fst (info this)) {}"

text \<open>
  Second loop, inner part: the parents of one record, on the flag \<open>*mapIt\<close> and \<open>nb\<close>.
\<close>

fun eraseParents :: "External \<Rightarrow> LevelSet \<Rightarrow> int list \<Rightarrow> bool \<times> int set \<Rightarrow> bool \<times> int set" where
  "eraseParents ext this [] (flag, nb) = (flag, nb)"
| "eraseParents ext this (parent # parents) (flag, nb) =
     (if isInNarrowBand ext this parent
      then eraseParents ext this parents (True, nb - {parent})
      else eraseParents ext this parents (flag, nb))"

text \<open>Second loop: one flag per record, in the order of the records.\<close>

fun eraseLoop :: "External \<Rightarrow> LevelSet \<Rightarrow> AdaptionInfo list \<Rightarrow> int set \<Rightarrow> bool list \<times> int set" where
  "eraseLoop ext this [] nb = ([], nb)"
| "eraseLoop ext this (r # mapper) nb =
     (let (flag, nb) = (if entity r = ENTITY_CELL
                        then eraseParents ext this (previous r) (False, nb)
                        else (False, nb));
          (flags, nb) = eraseLoop ext this mapper nb
      in (flag # flags, nb))"

text \<open>Third loop: the children of the flagged cell records are inserted.\<close>

fun insertLoop :: "AdaptionInfo list \<Rightarrow> bool list \<Rightarrow> int set \<Rightarrow> int set" where
  "insertLoop (r # mapper) (flag # flags) nb =
     insertLoop mapper flags
       (if entity r = ENTITY_CELL \<and> flag then fold insert (current r) nb else nb)"
| "insertLoop mapper flags nb = nb"

text \<open>The content of \<open>nb\<close> after the three loops.\<close>

definition updatedBand :: "External \<Rightarrow> LevelSet \<Rightarrow> AdaptionInfo list \<Rightarrow> int set" where
  "updatedBand ext this mapper =
     (let nb = snapshotBand ext this;
          (flags, nb) = eraseLoop ext this mapper nb
      in insertLoop mapper flags nb)"

text \<open>
  \<open>updateSizeNarrowBand\<close>: the last loop takes the minimum of 100 and of the levels of
  the identifiers in \<open>nb\<close> (the order of the iteration does not change a minimum). The
  method is a member function that is not \<open>const\<close>: the model returns the engine state
  next to the radius.
\<close>

definition LevelSetOctree_updateSizeNarrowBand ::
  "External \<Rightarrow> VolOctree \<Rightarrow> AdaptionInfo list \<Rightarrow> LevelSet \<Rightarrow> real \<times> LevelSet" where
  "LevelSetOctree_updateSizeNarrowBand ext m_omesh mapper this =
     (let nb = updatedBand ext this mapper;
          level = Min (insert 100 (getCellLevel m_omesh ` nb));
          newRSearch = computeRSearchFromLevel m_omesh (word_of_int level)
      in (newRSearch, this))"

text \<open>
  \<open>update\<close> of the octree engine (the two lines written to \<open>std::cout\<close> are left out):
  the visitor is called on the engine, then \<open>RSearch\<close> is assigned.
\<close>

definition LevelSetOctree_update ::
  "External \<Rightarrow> VolOctree \<Rightarrow> LSObject \<Rightarrow> AdaptionInfo list \<Rightarrow> LevelSet \<Rightarrow> LevelSet" where
  "LevelSetOctree_update ext m_omesh visitor mapper this =
     (let (newRSearch, this) = LevelSetOctree_updateSizeNarrowBand ext m_omesh mapper this;
          this = updateLSInNarrowBandO visitor m_omesh this mapper newRSearch
      in this\<lparr>RSearch := newRSearch\<rparr>)"

section \<open>Concrete meshes, stores and collaborators\<close>

text \<open>
  The inputs on which the theorems below are evaluated.

  Modelled from the spec: \<open>isInNarrowBand\<close> of the base class (not among the sources), in
  the words of the store's contract: the record is present and active. A record counts as
  active under the test \<open>updateEikonal\<close> applies to it, \<open>active == 0\<close>.
\<close>

definition presentAndActive :: "LevelSet \<Rightarrow> int \<Rightarrow> bool" where
  "presentAndActive this I =
     (case map_of (info this) I of None \<Rightarrow> False | Some e \<Rightarrow> active e = 0)"

text \<open>The intersection of two boxes given by their corners, with its corners.\<close>

definition boxIntersection ::
  "darray3 \<Rightarrow> darray3 \<Rightarrow> darray3 \<Rightarrow> darray3 \<Rightarrow> bool \<times> darray3 \<times> darray3" where
  "boxIntersection A0 A1 B0 B1 =
     (max (A0 0) (B0 0) \<le> min (A1 0) (B1 0) \<and> max (A0 1) (B0 1) \<le> min (A1 1) (B1 1)
        \<and> max (A0 2) (B0 2) \<le> min (A1 2) (B1 2),
      (\<lambda>i. max (A0 i) (B0 i)), (\<lambda>i. min (A1 i) (B1 i)))"

text \<open>
  A uniform grid with \<open>nc\<close> cells per axis: the spacing is the length over the number of
  cells, the closest vertex is found by rounding, cells are numbered with the first index
  running fastest.
\<close>

definition uniformGrid :: "int \<Rightarrow> int \<Rightarrow> darray3 \<Rightarrow> darray3 \<Rightarrow> iarray3 \<Rightarrow> VolCartesian" where
  "uniformGrid ident dimension origin lengths nc =
     \<lparr>getDimension = dimension, getCells = [],
      getCell = (\<lambda>_. \<lparr>getId = 0, getConnect = (\<lambda>_. 0), getAdjacency = (\<lambda>_. - 1)\<rparr>),
      getVertexCoords = (\<lambda>_ _. 0),
      getBoundingBox = (origin, (\<lambda>i. origin i + lengths i)),
      getSpacing = (\<lambda>d. lengths (nat d) / real_of_int (nc (nat d))),
      locateClosestVertexCartesian =
        (\<lambda>point i. round_away ((point i - origin i) * real_of_int (nc i) / lengths i)),
      getCellLinearId = (\<lambda>i j k. i + nc 0 * (j + nc 1 * k))\<rparr>"

definition exampleExternal :: External where
  "exampleExternal =
     \<lparr>isInNarrowBand = presentAndActive, setSign = (\<lambda>flag this. this),
      newLevelSet = \<lparr>info = [], RSearch = 0\<rparr>,
      intersectBoxBox = boxIntersection, newVolCartesian = uniformGrid\<rparr>"

text \<open>A grid of 10 cells per axis with the spacings 1, 2 and 1/2.\<close>

definition exampleGrid :: VolCartesian where
  "exampleGrid = uniformGrid 0 3 (\<lambda>_. 0) (\<lambda>i. if i = 0 then 10 else if i = 1 then 20 else 5) (\<lambda>_. 10)"

text \<open>
  A row of three cells 0, 1, 2 of width 1: cell \<open>I\<close> has the left neighbour \<open>I - 1\<close> and the
  right neighbour \<open>I + 1\<close>, where these exist.
\<close>

definition lineMesh :: VolCartesian where
  "lineMesh =
     \<lparr>getDimension = 1, getCells = [],
      getCell = (\<lambda>I. \<lparr>getId = I, getConnect = (\<lambda>_. 0),
                        getAdjacency = (\<lambda>face. if face = 0 then I - 1
                                               else if face = 1 \<and> I < 2 then I + 1 else - 1)\<rparr>),
      getVertexCoords = (\<lambda>_ _. 0),
      getBoundingBox = ((\<lambda>_. 0), (\<lambda>i. if i = 0 then 3 else 0)),
      getSpacing = (\<lambda>_. 1),
      locateClosestVertexCartesian = (\<lambda>point i. round_away (point i)),
      getCellLinearId = (\<lambda>i j k. i)\<rparr>"

text \<open>Cell 1 of the row between two active neighbours holding 5 (left) and 1 (right).\<close>

definition twoNeighbours :: LevelSet where
  "twoNeighbours =
     \<lparr>info = [(0, \<lparr>lsvalue = 5, active = 0\<rparr>), (2, \<lparr>lsvalue = 1, active = 0\<rparr>)], RSearch = 1\<rparr>"

text \<open>Cell 1 again: the left record holds 7 and is not active, the right one is active with 1.\<close>

definition rightActive :: LevelSet where
  "rightActive =
     \<lparr>info = [(0, \<lparr>lsvalue = 7, active = 1\<rparr>), (2, \<lparr>lsvalue = 1, active = 0\<rparr>)], RSearch = 1\<rparr>"





text \<open>
  Cells of an octree on the unit cube: cell 0 of level 1 between the vertices 0 at
  \<open>(0, 0, 0)\<close> and 7 at \<open>(1/2, 1/2, 1/2)\<close>, cell 1 of level 2 between the vertices 8 at
  \<open>(1/2, 0, 0)\<close> and 15 at \<open>(3/4, 1/4, 1/4)\<close>, and the root, cell 2 of level 0, between
  the vertices 16 at \<open>(0, 0, 0)\<close> and 23 at \<open>(1, 1, 1)\<close>. The mesh holds the cells 0 and 1;
  its finest cell has size 1/4.
\<close>

definition cellA :: Cell where
  "cellA = \<lparr>getId = 0, getConnect = (\<lambda>j. int j), getAdjacency = (\<lambda>_. - 1)\<rparr>"

definition cellB :: Cell where
  "cellB = \<lparr>getId = 1, getConnect = (\<lambda>j. 8 + int j), getAdjacency = (\<lambda>_. - 1)\<rparr>"

definition rootCell :: Cell where
  "rootCell = \<lparr>getId = 2, getConnect = (\<lambda>j. 16 + int j), getAdjacency = (\<lambda>_. - 1)\<rparr>"

definition exampleOctree :: VolOctree where
  "exampleOctree =
     \<lparr>getDimension = 3, getCells = [cellA, cellB],
      getCell = (\<lambda>I. if I = 1 then cellB else if I = 2 then rootCell else cellA),
      getVertexCoords = (\<lambda>v i. if v = 7 then 1 / 2
                                else if v = 8 then (if i = 0 then 1 / 2 else 0)
                                else if v = 15 then (if i = 0 then 3 / 4 else 1 / 4)
                                else if v = 23 then 1
                                else 0),
      getBoundingBox = ((\<lambda>_. 0), (\<lambda>_. 1)),
      getCellLevel = (\<lambda>I. if I = 0 then 1 else if I = 1 then 2 else 0),
      getLocalMinSize = 1 / 4,
      levelToSize = (\<lambda>level. 1 / 2 ^ unat level)\<rparr>"

text \<open>
  A surface whose box is the unit cube; on a Cartesian engine it leaves the cells 57 and
  59 in the band. A second surface far from the cube.
\<close>

definition exampleSurface :: LSObject where
  "exampleSurface =
     \<lparr>getBoundingBoxLS = ((\<lambda>_. 0), (\<lambda>_. 1)),
      computeLSInNarrowBandC =
        (\<lambda>cmesh this. this\<lparr>info := [(57, \<lparr>lsvalue = 0, active = 0\<rparr>),
                                      (59, \<lparr>lsvalue = 0, active = 0\<rparr>)]\<rparr>),
      computeLSInNarrowBandO = (\<lambda>m this. this),
      updateLSInNarrowBandC = (\<lambda>cmesh this mapper r. this),
      updateLSInNarrowBandO = (\<lambda>m this mapper r. this)\<rparr>"

definition farSurface :: LSObject where
  "farSurface = exampleSurface\<lparr>getBoundingBoxLS := ((\<lambda>_. 5), (\<lambda>_. 6))\<rparr>"

text \<open>
  A surface whose update on an octree engine writes down what it is given: the \<open>RSearch\<close> it
  reads in the engine under the identifier 0, the radius it receives under 1.
\<close>

definition probeSurface :: LSObject where
  "probeSurface = exampleSurface
     \<lparr>updateLSInNarrowBandO :=
        (\<lambda>m this mapper newRSearch.
           this\<lparr>info := [(0, \<lparr>lsvalue = RSearch this, active = 0\<rparr>),
                         (1, \<lparr>lsvalue = newRSearch, active = 0\<rparr>)]\<rparr>)\<rparr>"

text \<open>
  The proxy that \<open>computeSizeNarrowBand\<close> builds for this mesh and this surface (the
  intersection of their boxes is the unit cube): a grid of origin \<open>-1/4\<close> with 7 cells of
  size 1/4 per axis, and the engine computed on it.
\<close>

definition exampleProxy :: VolCartesian where
  "exampleProxy = fst (proxy exampleExternal (\<lambda>_. 0) exampleOctree exampleSurface (\<lambda>_. 0) (\<lambda>_. 1))"

definition exampleAux :: LevelSet where
  "exampleAux = snd (proxy exampleExternal (\<lambda>_. 0) exampleOctree exampleSurface (\<lambda>_. 0) (\<lambda>_. 1))"

text \<open>
  Engine states: a new engine; one whose band holds the cells 1 to 8 and 40; one whose
  band holds cell 1 only, with the radius of level 1.
\<close>

definition emptyEngine :: LevelSet where
  "emptyEngine = \<lparr>info = [], RSearch = 0\<rparr>"

definition bandEngine :: LevelSet where
  "bandEngine =
     \<lparr>info = map (\<lambda>I. (I, \<lparr>lsvalue = 0, active = 0\<rparr>)) [1, 2, 3, 4, 5, 6, 7, 8, 40],
      RSearch = 1\<rparr>"

definition fineEngine :: LevelSet where
  "fineEngine = \<lparr>info = [(1, \<lparr>lsvalue = 0, active = 0\<rparr>)], RSearch = sqrt 11 / 4\<rparr>"

text \<open>
  Adaptation records: a merge of the eight cells 1 to 8 into cell 9, a merge of the eight
  cells 11 to 18 into cell 19, and a record of a vertex.
\<close>

definition mergeInBand :: AdaptionInfo where
  "mergeInBand = \<lparr>entity = ENTITY_CELL, previous = [1, 2, 3, 4, 5, 6, 7, 8], current = [9]\<rparr>"

definition mergeOutOfBand :: AdaptionInfo where
  "mergeOutOfBand =
     \<lparr>entity = ENTITY_CELL, previous = [11, 12, 13, 14, 15, 16, 17, 18], current = [19]\<rparr>"

definition vertexRecord :: AdaptionInfo where
  "vertexRecord = \<lparr>entity = ENTITY_VERTEX, previous = [1], current = [50]\<rparr>"

section \<open>Properties of the Cartesian engine\<close>

subsection \<open>The band sizer\<close>

lemma fold_max_Max:
  "fold (\<lambda>d r. max r (f d)) xs (a::real) = Max (insert a (f ` set xs))"
proof (induction xs arbitrary: a)
  case Nil
  then show ?case by simp
next
  case (Cons x xs)
  have "Max (insert (max a (f x)) (f ` set xs)) = Max (insert a (insert (f x) (f ` set xs)))"
    by (cases "set xs = {}") (simp_all add: max.assoc)
  with Cons show ?case by simp
qed

lemma axes_set: "{0 .. n - 1} = {0 ..< (n::int)}"
  by auto

text \<open>
  Claim C3. On a Cartesian mesh (at least one axis, positive spacings) both
  \<open>computeSizeNarrowBand\<close> and \<open>updateSizeNarrowBand\<close> give exactly the largest spacing
  over the axes, whatever the visitor, the adaptation records and the engine state.
\<close>

theorem cartesian_radius_is_max_spacing:
  assumes "0 < getDimension m_cmesh"
    and "\<forall>d. 0 \<le> d \<and> d < getDimension m_cmesh \<longrightarrow> 0 < getSpacing m_cmesh d"
  shows "RSearch (LevelSetCartesian_computeSizeNarrowBand m_cmesh visitor this)
           = Max (getSpacing m_cmesh ` {0 ..< getDimension m_cmesh})
       \<and> LevelSetCartesian_updateSizeNarrowBand m_cmesh mapper
           = Max (getSpacing m_cmesh ` {0 ..< getDimension m_cmesh})"
proof -
  let ?A = "getSpacing m_cmesh ` {0 ..< getDimension m_cmesh}"
  have ne: "?A \<noteq> {}" and fin: "finite ?A" using assms(1) by auto
  have "getSpacing m_cmesh 0 \<in> ?A" using assms(1) by auto
  then have "getSpacing m_cmesh 0 \<le> Max ?A" using fin by simp
  moreover have "0 < getSpacing m_cmesh 0" using assms by simp
  ultimately have "- 1 \<le> Max ?A" by linarith
  then have "Max (insert (- 1) ?A) = Max ?A"
    using ne fin by (simp add: max_def)
  then show ?thesis
    by (simp add: LevelSetCartesian_computeSizeNarrowBand_def
        LevelSetCartesian_updateSizeNarrowBand_def fold_max_Max axes_set)
qed

lemma exampleGrid_spacing:
  "getDimension exampleGrid = 3"
  "getSpacing exampleGrid 0 = 1" "getSpacing exampleGrid 1 = 2" "getSpacing exampleGrid 2 = 1 / 2"
  by (simp_all add: exampleGrid_def uniformGrid_def)

lemma axes3: "{0 ..< 3 :: int} = {0, 1, 2}"
  by auto

text \<open>On the grid with the spacings 1, 2 and 1/2 the radius is 2.\<close>

theorem cartesian_radius_is_max_spacing_witness:
  "0 < getDimension exampleGrid
   \<and> RSearch (LevelSetCartesian_computeSizeNarrowBand exampleGrid farSurface emptyEngine) = 2
   \<and> LevelSetCartesian_updateSizeNarrowBand exampleGrid [mergeInBand] = 2"
proof -
  have dim: "0 < getDimension exampleGrid" by (simp add: exampleGrid_spacing)
  have pos: "\<forall>d. 0 \<le> d \<and> d < getDimension exampleGrid \<longrightarrow> 0 < getSpacing exampleGrid d"
  proof (intro allI impI)
    fix d :: int
    assume "0 \<le> d \<and> d < getDimension exampleGrid"
    then have "d = 0 \<or> d = 1 \<or> d = 2" by (simp add: exampleGrid_spacing) arith
    then show "0 < getSpacing exampleGrid d" by (auto simp: exampleGrid_spacing)
  qed
  have "Max (getSpacing exampleGrid ` {0 ..< getDimension exampleGrid}) = 2"
    by (simp add: exampleGrid_spacing axes3)
  then show ?thesis
    using dim cartesian_radius_is_max_spacing [OF dim pos, of farSurface emptyEngine "[mergeInBand]"]
    by simp
qed

subsection \<open>Rounding to double\<close>

text \<open>
  A real number \<open>m * 2^k\<close> with an integer \<open>m\<close> of less than 54 bits and \<open>k\<close> not below
  \<open>-1074\<close> is a double (overflow apart) and is left unchanged by the rounding.
\<close>

lemma round_to_even_of_int: "round_to_even (real_of_int k) = k"
  by (simp add: round_to_even_def)

lemma floor_log2_int:
  assumes "m \<noteq> 0" "\<bar>m\<bar> < 2 ^ 53"
  shows "0 \<le> \<lfloor>log 2 \<bar>real_of_int m\<bar>\<rfloor> \<and> \<lfloor>log 2 \<bar>real_of_int m\<bar>\<rfloor> \<le> 52"
proof -
  have one: "1 \<le> \<bar>real_of_int m\<bar>" using assms(1) by (simp flip: of_int_abs)
  have "\<bar>real_of_int m\<bar> < 2 powr 53" using assms(2) by (simp flip: of_int_abs)
  then have "log 2 \<bar>real_of_int m\<bar> < 53" using one by (subst log_less_iff) simp_all
  then have "\<lfloor>log 2 \<bar>real_of_int m\<bar>\<rfloor> < 53" by (simp add: floor_less_iff)
  moreover have "0 \<le> log 2 \<bar>real_of_int m\<bar>" using one by simp
  ultimately show ?thesis by simp
qed

lemma fl_exact:
  assumes "\<bar>m\<bar> < 2 ^ 53" and "- 1074 \<le> k"
  shows "fl (real_of_int m * 2 powr real_of_int k) = real_of_int m * 2 powr real_of_int k"
proof (cases "m = 0")
  case True
  then show ?thesis by (simp add: fl_def)
next
  case False
  let ?x = "real_of_int m * 2 powr real_of_int k"
  have x0: "?x \<noteq> 0" using False by simp
  have "log 2 \<bar>?x\<bar> = log 2 \<bar>real_of_int m\<bar> + real_of_int k"
    using False by (simp add: abs_mult log_mult)
  then have L: "\<lfloor>log 2 \<bar>?x\<bar>\<rfloor> = \<lfloor>log 2 \<bar>real_of_int m\<bar>\<rfloor> + k"
    by simp
  define e where "e = max (\<lfloor>log 2 \<bar>?x\<bar>\<rfloor> - 52) (- 1074)"
  have "e \<le> k" using floor_log2_int [OF False assms(1)] assms(2) by (simp add: e_def L)
  then obtain j :: nat where j: "k = e + int j" by (metis nonneg_int_cases zle_iff_zadd)
  have "?x / 2 powr real_of_int e = real_of_int m * 2 powr (real_of_int k - real_of_int e)"
    by (simp add: powr_diff)
  also have "\<dots> = real_of_int m * 2 powr real j" by (simp add: j)
  also have "\<dots> = real_of_int (m * 2 ^ j)" by (simp add: powr_realpow)
  finally have q: "?x / 2 powr real_of_int e = real_of_int (m * 2 ^ j)" .
  have "2 powr real_of_int k = 2 powr real_of_int e * 2 ^ j"
    by (simp add: j powr_add powr_realpow)
  then have "real_of_int (m * 2 ^ j) * 2 powr real_of_int e = ?x"
    by simp
  then show ?thesis
    using x0 unfolding fl_def Let_def e_def [symmetric] q round_to_even_of_int by simp
qed

lemma fl_of_int: "\<bar>m\<bar> < 2 ^ 53 \<Longrightarrow> fl (real_of_int m) = real_of_int m"
  using fl_exact [of m 0] by simp

lemma fl_numeral [simp]:
  "(numeral n :: int) < 2 ^ 53 \<Longrightarrow> fl (numeral n) = numeral n"
  "(numeral n :: int) < 2 ^ 53 \<Longrightarrow> fl (- numeral n) = - numeral n"
  "fl 0 = 0" "fl 1 = 1" "fl (- 1) = - 1"
  using fl_of_int [of "numeral n"] fl_of_int [of "- numeral n"] fl_of_int [of 1] fl_of_int [of "- 1"]
  by (simp_all add: fl_def)




subsection \<open>The Eikonal solve on one axis\<close>

lemma axis0: "[0 .. (1::int) - 1] = [0]"
  by (simp add: upto.simps)

lemma upwindValue_left:
  assumes "0 \<le> getAdjacency cell (2 * d)"
    and "map_of (info this) (getAdjacency cell (2 * d)) = Some \<lparr>lsvalue = v0, active = 0\<rparr>"
    and "fl (s * v0) \<le> 10 ^ 18"
  shows "upwindValue this s cell d = Inr (fl (s * v0))"
  using assms by (simp add: upwindValue_def info_at_def min_def Let_def)

lemma upwindValue_inactive:
  assumes "map_of (info this) (getAdjacency cell (2 * d)) = Some e" and "active e \<noteq> 0"
  shows "upwindValue this s cell d = Inr (10 ^ 18)"
  using assms by (simp add: upwindValue_def info_at_def Let_def)

lemma quadraticForm_append:
  "quadraticForm m this s cell (xs @ ys) abc =
     (case quadraticForm m this s cell xs abc of
        Inl e \<Rightarrow> Inl e
      | Inr abc' \<Rightarrow> quadraticForm m this s cell ys abc')"
proof (induction xs arbitrary: abc)
  case Nil
  then show ?case by simp
next
  case (Cons d xs)
  obtain a b c where abc: "abc = (a, b, c)" by (cases abc) auto
  show ?case
    by (simp add: abc Cons.IH Let_def split: sum.splits)
qed

lemma quadraticForm_skip:
  assumes "\<forall>d \<in> set ds. \<exists>e. map_of (info this) (getAdjacency cell (2 * d)) = Some e \<and> active e \<noteq> 0"
  shows "quadraticForm m this s cell ds abc = Inr abc"
  using assms
proof (induction ds)
  case Nil
  then show ?case by simp
next
  case (Cons d ds)
  obtain a b c where abc: "abc = (a, b, c)" by (cases abc) auto
  from Cons.prems obtain e where "map_of (info this) (getAdjacency cell (2 * d)) = Some e"
    and "active e \<noteq> 0" by auto
  then have "upwindValue this s cell d = Inr (10 ^ 18)" by (rule upwindValue_inactive)
  moreover have "quadraticForm m this s cell ds abc = Inr abc" using Cons by simp
  ultimately show ?case by (simp add: abc)
qed

lemma quadraticForm_one_axis:
  assumes axis: "0 \<le> d0" "d0 < getDimension m"
    and others: "\<forall>d. 0 \<le> d \<and> d < getDimension m \<and> d \<noteq> d0 \<longrightarrow>
        (\<exists>e. map_of (info this) (getAdjacency cell (2 * d)) = Some e \<and> active e \<noteq> 0)"
    and up: "upwindValue this s cell d0 = Inr u"
    and far: "u < 10 ^ 17"
    and h2: "fl ((getSpacing m d0) ^ 2) \<noteq> 0"
  shows "quadraticForm m this s cell [0 .. getDimension m - 1] (0, 0, 0)
           = Inr (fl (0 + fl (1 / fl ((getSpacing m d0) ^ 2))),
                  fl (0 + fl (fl (- 2 * u) / fl ((getSpacing m d0) ^ 2))),
                  fl (0 + fl (fl (u ^ 2) / fl ((getSpacing m d0) ^ 2))))"
proof -
  have split: "[0 .. getDimension m - 1] = [0 .. d0 - 1] @ d0 # [d0 + 1 .. getDimension m - 1]"
    using axis by (intro upto_split3) simp_all
  have before: "quadraticForm m this s cell [0 .. d0 - 1] abc = Inr abc" for abc
    using others axis by (intro quadraticForm_skip) auto
  have after: "quadraticForm m this s cell [d0 + 1 .. getDimension m - 1] abc = Inr abc" for abc
    using others axis by (intro quadraticForm_skip) auto
  show ?thesis
    unfolding split quadraticForm_append before sum.case
    using up far h2 by (simp add: after Let_def)
qed

lemma solve_quadratic:
  assumes qf: "quadraticForm m this s (getCell m I) [0 .. getDimension m - 1] (0, 0, 0) = Inr (a, b, c)"
    and "fl (b ^ 2) = B2" "fl (4 * a) = A4" "fl (c - 1) = C1" "fl (A4 * C1) = P"
    and "fl (B2 - P) = D" "fl (sqrt D) = r" "fl (b - r) = t" "fl (2 * a) = A2" "fl (- t / A2) = v"
    and "a \<noteq> 0" "0 \<le> D"
  shows "LevelSetCartesian_updateEikonal m this s 1 I = Inr v"
  unfolding LevelSetCartesian_updateEikonal_def Let_def qf
  using assms(2-) by (simp only: sum.case prod.case power_one fl_numeral) simp

text \<open>
  One contributing axis \<open>d0\<close> with the upwind value \<open>u\<close> and the spacing \<open>h\<close>, every other
  axis without contribution, and no intermediate result changed by the rounding: the
  result is \<open>u + h\<close>.
\<close>

lemma solve_one_axis:
  fixes u h :: real
  assumes axis: "0 \<le> d0" "d0 < getDimension m"
    and others: "\<forall>d. 0 \<le> d \<and> d < getDimension m \<and> d \<noteq> d0 \<longrightarrow>
        (\<exists>e. map_of (info this) (getAdjacency (getCell m I) (2 * d)) = Some e \<and> active e \<noteq> 0)"
    and up: "upwindValue this s (getCell m I) d0 = Inr u"
    and far: "u < 10 ^ 17"
    and h: "h = getSpacing m d0" "0 < h"
    and exact: "list_all (\<lambda>x. fl x = x)
        [h ^ 2, 1 / h ^ 2, - 2 * u, - 2 * u / h ^ 2, u ^ 2, u ^ 2 / h ^ 2, 4 * u ^ 2 / h ^ 4,
         4 / h ^ 2, u ^ 2 / h ^ 2 - 1, 4 / h ^ 2 * (u ^ 2 / h ^ 2 - 1), 2 / h,
         - 2 * u / h ^ 2 - 2 / h, 2 / h ^ 2, u + h]"
  shows "LevelSetCartesian_updateEikonal m this s 1 I = Inr (u + h)"
proof -
  from exact have e: "fl (h ^ 2) = h ^ 2" "fl (1 / h ^ 2) = 1 / h ^ 2" "fl (- 2 * u) = - 2 * u"
    "fl (- 2 * u / h ^ 2) = - 2 * u / h ^ 2" "fl (u ^ 2) = u ^ 2" "fl (u ^ 2 / h ^ 2) = u ^ 2 / h ^ 2"
    "fl (4 * u ^ 2 / h ^ 4) = 4 * u ^ 2 / h ^ 4" "fl (4 / h ^ 2) = 4 / h ^ 2"
    "fl (u ^ 2 / h ^ 2 - 1) = u ^ 2 / h ^ 2 - 1"
    "fl (4 / h ^ 2 * (u ^ 2 / h ^ 2 - 1)) = 4 / h ^ 2 * (u ^ 2 / h ^ 2 - 1)"
    "fl (2 / h) = 2 / h" "fl (- 2 * u / h ^ 2 - 2 / h) = - 2 * u / h ^ 2 - 2 / h"
    "fl (2 / h ^ 2) = 2 / h ^ 2" "fl (u + h) = u + h"
    by simp_all
  define a where "a = 1 / h ^ 2"
  define b where "b = - 2 * u / h ^ 2"
  define c where "c = u ^ 2 / h ^ 2"
  have h2: "fl ((getSpacing m d0) ^ 2) \<noteq> 0" using h e(1) by simp
  have "quadraticForm m this s (getCell m I) [0 .. getDimension m - 1] (0, 0, 0)
           = Inr (fl (0 + fl (1 / fl ((getSpacing m d0) ^ 2))),
                  fl (0 + fl (fl (- 2 * u) / fl ((getSpacing m d0) ^ 2))),
                  fl (0 + fl (fl (u ^ 2) / fl ((getSpacing m d0) ^ 2))))"
    using axis others up far h2 by (rule quadraticForm_one_axis)
  then have qf: "quadraticForm m this s (getCell m I) [0 .. getDimension m - 1] (0, 0, 0) = Inr (a, b, c)"
    unfolding h(1) [symmetric] e(1) add_0 e(2,3,4,5,6) a_def b_def c_def .
  have b2: "b ^ 2 = 4 * u ^ 2 / h ^ 4"
    by (simp add: b_def power_divide power_mult_distrib)
  have a4: "4 * a = 4 / h ^ 2" by (simp add: a_def)
  have a2: "2 * a = 2 / h ^ 2" by (simp add: a_def)
  have d: "4 * u ^ 2 / h ^ 4 - 4 / h ^ 2 * (u ^ 2 / h ^ 2 - 1) = 4 / h ^ 2"
    using h(2) by (simp add: field_simps power4_eq_xxxx power2_eq_square)
  have sq: "sqrt (4 / h ^ 2) = 2 / h"
    using h(2) by (simp add: real_sqrt_divide)
  have res: "- (- 2 * u / h ^ 2 - 2 / h) / (2 / h ^ 2) = u + h"
    using h(2) by (simp add: field_simps power2_eq_square)
  show ?thesis
  proof (rule solve_quadratic [OF qf])
    show "fl (b ^ 2) = 4 * u ^ 2 / h ^ 4" by (simp only: b2 e)
    show "fl (4 * a) = 4 / h ^ 2" by (simp only: a4 e)
    show "fl (c - 1) = u ^ 2 / h ^ 2 - 1" by (simp only: c_def e)
    show "fl (4 / h ^ 2 * (u ^ 2 / h ^ 2 - 1)) = 4 / h ^ 2 * (u ^ 2 / h ^ 2 - 1)" by (rule e)
    show "fl (4 * u ^ 2 / h ^ 4 - 4 / h ^ 2 * (u ^ 2 / h ^ 2 - 1)) = 4 / h ^ 2" by (simp only: d e)
    show "fl (sqrt (4 / h ^ 2)) = 2 / h" by (simp only: sq e)
    show "fl (b - 2 / h) = - 2 * u / h ^ 2 - 2 / h" by (simp only: b_def e)
    show "fl (2 * a) = 2 / h ^ 2" by (simp only: a2 e)
    show "fl (- (- 2 * u / h ^ 2 - 2 / h) / (2 / h ^ 2)) = u + h" by (simp only: res e)
    show "a \<noteq> 0" using h(2) by (simp add: a_def)
    show "0 \<le> 4 / h ^ 2" by simp
  qed
qed

lemma lineMesh_simps:
  "getDimension lineMesh = 1" "getSpacing lineMesh d = 1"
  "getAdjacency (getCell lineMesh I) 0 = I - 1"
  "getAdjacency (getCell lineMesh 1) 1 = 2"
  "getAdjacency (getCell lineMesh 2) 1 = - 1"
  by (simp_all add: lineMesh_def)


text \<open>
  Claim C1, evaluated where it fails. Cell 1 of the row has two existing, active
  neighbours holding 5 (left) and 1 (right). With \<open>s = 1\<close> the contributions are 5 and 1
  and their minimum is 1, which gives the solution \<open>1 + 1 = 2\<close>. The code takes the value 5
  for both sides, because the test of the right neighbour reads the record of the left
  one: the upwind value is 5 and the result is 6. With the left record not active and the
  right one active with 1, the code finds no contribution at all (the upwind value stays
  at \<open>1e18\<close>) and the result is not a number, where the claim gives 2 again.
\<close>

theorem eikonal_right_neighbour_reads_left_record:
  "getAdjacency (getCell lineMesh 1) 0 = 0 \<and> getAdjacency (getCell lineMesh 1) 1 = 2
   \<and> info_at twoNeighbours 0 = Inr \<lparr>lsvalue = 5, active = 0\<rparr>
   \<and> info_at twoNeighbours 2 = Inr \<lparr>lsvalue = 1, active = 0\<rparr>
   \<and> upwindValue twoNeighbours 1 (getCell lineMesh 1) 0 = Inr 5
   \<and> LevelSetCartesian_updateEikonal lineMesh twoNeighbours 1 1 1 = Inr 6
   \<and> info_at rightActive 0 = Inr \<lparr>lsvalue = 7, active = 1\<rparr>
   \<and> info_at rightActive 2 = Inr \<lparr>lsvalue = 1, active = 0\<rparr>
   \<and> upwindValue rightActive 1 (getCell lineMesh 1) 0 = Inr (10 ^ 18)
   \<and> LevelSetCartesian_updateEikonal lineMesh rightActive 1 1 1 = Inl NotFinite"
proof -
  have "upwindValue twoNeighbours 1 (getCell lineMesh 1) 0 = Inr (fl (1 * 5))"
    by (rule upwindValue_left) (simp_all add: lineMesh_simps twoNeighbours_def)
  then have up: "upwindValue twoNeighbours 1 (getCell lineMesh 1) 0 = Inr 5"
    by simp
  have "LevelSetCartesian_updateEikonal lineMesh twoNeighbours 1 1 1 = Inr (5 + 1)"
    by (rule solve_one_axis [where ?d0.0 = 0, OF _ _ _ up])
       (simp_all add: lineMesh_simps)
  then have six: "LevelSetCartesian_updateEikonal lineMesh twoNeighbours 1 1 1 = Inr 6"
    by simp
  have none: "upwindValue rightActive 1 (getCell lineMesh 1) 0 = Inr (10 ^ 18)"
    by (simp add: upwindValue_def info_at_def rightActive_def lineMesh_simps Let_def)
  have nan: "LevelSetCartesian_updateEikonal lineMesh rightActive 1 1 1 = Inl NotFinite"
    by (simp add: LevelSetCartesian_updateEikonal_def lineMesh_simps axis0 none)
  from six up none nan show ?thesis
    by (simp add: lineMesh_simps info_at_def twoNeighbours_def rightActive_def)
qed




section \<open>Properties of the octree engine\<close>

subsection \<open>Sampling the proxy grid\<close>

lemma fold_or:
  "fold (\<lambda>x flagged. flagged \<or> P x) xs b \<longleftrightarrow> b \<or> (\<exists>x \<in> set xs. P x)"
  by (induction xs arbitrary: b) auto

lemma fold_or_nested:
  "fold (\<lambda>x flagged. fold (\<lambda>y flagged. flagged \<or> P x y) (ys x) flagged) xs b
     \<longleftrightarrow> b \<or> (\<exists>x \<in> set xs. \<exists>y \<in> set (ys x). P x y)"
  by (induction xs arbitrary: b) (auto simp: fold_or)

lemma fold_or_nested3:
  "fold (\<lambda>x flagged. fold (\<lambda>y flagged. fold (\<lambda>z flagged. flagged \<or> P x y z) zs flagged) ys flagged) xs b
     \<longleftrightarrow> b \<or> (\<exists>x \<in> set xs. \<exists>y \<in> set ys. \<exists>z \<in> set zs. P x y z)"
  by (induction xs arbitrary: b) (auto simp: fold_or_nested)

lemma sampleProxy_iff:
  "sampleProxy aux cmesh i0 i1 \<longleftrightarrow>
     (\<exists>i j k. i0 0 \<le> i \<and> i < i1 0 \<and> i0 1 \<le> j \<and> j < i1 1 \<and> i0 2 \<le> k \<and> k < i1 2
        \<and> aux (long_to_int (getCellLinearId cmesh i j k)))"
proof -
  have "sampleProxy aux cmesh i0 i1 \<longleftrightarrow>
     (\<exists>k \<in> set [i0 2 .. i1 2 - 1]. \<exists>j \<in> set [i0 1 .. i1 1 - 1]. \<exists>i \<in> set [i0 0 .. i1 0 - 1].
        aux (long_to_int (getCellLinearId cmesh i j k)))"
    unfolding sampleProxy_def Let_def by (simp only: fold_or_nested3) simp
  also have "\<dots> \<longleftrightarrow> (\<exists>i j k. i0 0 \<le> i \<and> i < i1 0 \<and> i0 1 \<le> j \<and> j < i1 1 \<and> i0 2 \<le> k \<and> k < i1 2
        \<and> aux (long_to_int (getCellLinearId cmesh i j k)))"
    by (simp add: Bex_def) (metis zle_diff1_eq)
  finally show ?thesis .
qed

text \<open>The example evaluated: the proxy, its band, and the flags of the two cells.\<close>

lemma snap_example:
  "snapToGrid (\<lambda>_. 0) (1 / 4) [0 ..< 3] ((\<lambda>i. - (1 / 4)), (\<lambda>i. 5 / 4), (\<lambda>_. 0))
     = ((\<lambda>_. - (1 / 4)), (\<lambda>i. if i < 3 then 3 / 2 else 5 / 4), (\<lambda>i. if i < 3 then 7 else 0))"
  by (auto simp: upt_rec int_cast_def round_away_def fun_eq_iff)

lemma proxy_example:
  "proxy exampleExternal (\<lambda>_. 0) exampleOctree exampleSurface (\<lambda>_. 0) (\<lambda>_. 1)
     = (uniformGrid 0 3 (\<lambda>_. - (1 / 4)) (\<lambda>i. (if i < 3 then 3 / 2 else 5 / 4) - - (1 / 4))
          (\<lambda>i. if i < 3 then 7 else 0),
        \<lparr>info = [(57, \<lparr>lsvalue = 0, active = 0\<rparr>), (59, \<lparr>lsvalue = 0, active = 0\<rparr>)],
         RSearch = RSearch (LevelSetCartesian_computeSizeNarrowBand
           (uniformGrid 0 3 (\<lambda>_. - (1 / 4)) (\<lambda>i. (if i < 3 then 3 / 2 else 5 / 4) - - (1 / 4))
              (\<lambda>i. if i < 3 then 7 else 0)) exampleSurface \<lparr>info = [], RSearch = 0\<rparr>)\<rparr>)"
proof -
  have dim: "nat (getDimension exampleOctree) = 3" "getLocalMinSize exampleOctree = 1 / 4"
    "getBoundingBox exampleOctree = ((\<lambda>_. 0), (\<lambda>_. 1))" "getDimension exampleOctree = 3"
    by (simp_all add: exampleOctree_def)
  show ?thesis
    unfolding proxy_def Let_def dim prod.case
    by (simp add: snap_example exampleExternal_def exampleSurface_def LevelSetCartesian_compute_def
        LevelSetCartesian_computeSizeNarrowBand_def)
qed

lemma exampleProxy_simps:
  "i < 3 \<Longrightarrow> locateClosestVertexCartesian exampleProxy point i = round_away ((28 * point i + 7) / 7)"
  "getCellLinearId exampleProxy x y z = x + 7 * (y + 7 * z)"
  by (simp_all add: exampleProxy_def proxy_example uniformGrid_def)

lemma exampleAux_band: "isInNarrowBand exampleExternal exampleAux I \<longleftrightarrow> I = 57 \<or> I = 59"
  unfolding exampleAux_def proxy_example
  by (simp add: exampleExternal_def presentAndActive_def)

lemma corners:
  "getDimension exampleOctree = 3"
  "getVertexCoords exampleOctree (getConnect cellA 0) = (\<lambda>_. 0)"
  "getVertexCoords exampleOctree (getConnect cellA 7) = (\<lambda>_. 1 / 2)"
  "getVertexCoords exampleOctree (getConnect cellB 0) = (\<lambda>i. if i = 0 then 1 / 2 else 0)"
  "getVertexCoords exampleOctree (getConnect cellB 7) = (\<lambda>i. if i = 0 then 3 / 4 else 1 / 4)"
  by (simp_all add: exampleOctree_def cellA_def cellB_def)

lemma closest:
  "map (locateClosestVertexCartesian exampleProxy (getVertexCoords exampleOctree (getConnect cellA 0))) [0, 1, 2] = [1, 1, 1]"
  "map (locateClosestVertexCartesian exampleProxy (getVertexCoords exampleOctree (getConnect cellA 7))) [0, 1, 2] = [3, 3, 3]"
  "map (locateClosestVertexCartesian exampleProxy (getVertexCoords exampleOctree (getConnect cellB 0))) [0, 1, 2] = [3, 1, 1]"
  "map (locateClosestVertexCartesian exampleProxy (getVertexCoords exampleOctree (getConnect cellB 7))) [0, 1, 2] = [4, 2, 2]"
  by (simp_all add: corners exampleProxy_simps round_away_def)

lemma l2i: "long_to_int 57 = 57" "long_to_int 59 = 59" "long_to_int 116 = 116"
  by (simp_all add: long_to_int_def)

lemma flaggedA: "cellFlagged (isInNarrowBand exampleExternal exampleAux) exampleProxy exampleOctree cellA"
proof -
  have "1 + 7 * (1 + 7 * 1) = (57::int)" by simp
  then have "\<exists>i j k. (1::int) \<le> i \<and> i < 3 \<and> (1::int) \<le> j \<and> j < 3 \<and> (1::int) \<le> k \<and> k < 3
     \<and> isInNarrowBand exampleExternal exampleAux (long_to_int (i + 7 * (j + 7 * k)))"
    by (intro exI [of _ 1]) (simp add: exampleAux_band l2i)
  then show ?thesis
    using closest(1,2)
    by (simp add: cellFlagged_def Let_def sampleProxy_iff corners(1) exampleProxy_simps(2))
qed

lemma flaggedB: "cellFlagged (isInNarrowBand exampleExternal exampleAux) exampleProxy exampleOctree cellB"
proof -
  have "\<exists>i j k. (3::int) \<le> i \<and> i < 4 \<and> (1::int) \<le> j \<and> j < 2 \<and> (1::int) \<le> k \<and> k < 2
     \<and> isInNarrowBand exampleExternal exampleAux (long_to_int (i + 7 * (j + 7 * k)))"
    by (intro exI [of _ 3] exI [of _ 1]) (simp add: exampleAux_band l2i)
  then show ?thesis
    using closest(3,4)
    by (simp add: cellFlagged_def Let_def sampleProxy_iff corners(1) exampleProxy_simps(2))
qed

lemma notFlaggedB: "\<not> cellFlagged (\<lambda>index. index = 116) exampleProxy exampleOctree cellB"
proof -
  have "\<not> (\<exists>i j k. (3::int) \<le> i \<and> i < 4 \<and> (1::int) \<le> j \<and> j < 2 \<and> (1::int) \<le> k \<and> k < 2
     \<and> long_to_int (i + 7 * (j + 7 * k)) = 116)"
  proof
    assume "\<exists>i j k. (3::int) \<le> i \<and> i < 4 \<and> (1::int) \<le> j \<and> j < 2 \<and> (1::int) \<le> k \<and> k < 2
     \<and> long_to_int (i + 7 * (j + 7 * k)) = 116"
    then obtain i j k :: int where "3 \<le> i" "i < 4" "1 \<le> j" "j < 2" "1 \<le> k" "k < 2"
      and eq: "long_to_int (i + 7 * (j + 7 * k)) = 116" by blast
    then have "i = 3" "j = 1" "k = 1" by simp_all
    with eq show False by (simp add: l2i)
  qed
  then show ?thesis
    using closest(3,4)
    by (simp add: cellFlagged_def Let_def sampleProxy_iff corners(1) exampleProxy_simps(2))
qed

text \<open>
  Claim C6, as amended. On an octree of dimension 3, with \<open>i0\<close> and \<open>i1\<close> the proxy
  vertices closest to the two diagonal vertices \<open>conn[0]\<close> and \<open>conn[7]\<close> of a cell, the cell
  is flagged if and only if some proxy cell \<open>(i, j, k)\<close> with \<open>i0 \<le> (i, j, k) < i1\<close> in
  every component is in the proxy band: the range includes \<open>i0\<close> and excludes \<open>i1\<close>.
\<close>

theorem octree_cell_flagged_half_open:
  assumes "getDimension m_omesh = 3"
  shows "(let i0 = locateClosestVertexCartesian cmesh (getVertexCoords m_omesh (getConnect cell 0));
              i1 = locateClosestVertexCartesian cmesh (getVertexCoords m_omesh (getConnect cell 7))
          in cellFlagged auxInNarrowBand cmesh m_omesh cell \<longleftrightarrow>
               (\<exists>i j k. i0 0 \<le> i \<and> i < i1 0 \<and> i0 1 \<le> j \<and> j < i1 1 \<and> i0 2 \<le> k \<and> k < i1 2
                  \<and> auxInNarrowBand (long_to_int (getCellLinearId cmesh i j k))))"
  using assms by (simp add: cellFlagged_def Let_def sampleProxy_iff)

text \<open>
  Cell 1 of the example lies between the proxy vertices \<open>(3, 1, 1)\<close> and \<open>(4, 2, 2)\<close>:
  the one proxy cell sampled is \<open>(3, 1, 1)\<close>, number 59, and with it in the proxy band the
  cell is flagged.
\<close>

theorem octree_cell_flagged_half_open_witness:
  "getDimension exampleOctree = 3
   \<and> map (locateClosestVertexCartesian exampleProxy (getVertexCoords exampleOctree (getConnect cellB 0)))
        [0, 1, 2] = [3, 1, 1]
   \<and> map (locateClosestVertexCartesian exampleProxy (getVertexCoords exampleOctree (getConnect cellB 7)))
        [0, 1, 2] = [4, 2, 2]
   \<and> long_to_int (getCellLinearId exampleProxy 3 1 1) = 59
   \<and> cellFlagged (\<lambda>index. index = 59) exampleProxy exampleOctree cellB"
proof -
  have dim: "getDimension exampleOctree = 3" by (rule corners(1))
  have cell: "long_to_int (getCellLinearId exampleProxy 3 1 1) = 59"
    by (simp add: exampleProxy_simps(2) l2i)
  have "\<exists>i j k. (3::int) \<le> i \<and> i < 4 \<and> (1::int) \<le> j \<and> j < 2 \<and> (1::int) \<le> k \<and> k < 2
     \<and> long_to_int (getCellLinearId exampleProxy i j k) = 59"
    using cell by (intro exI [of _ 3] exI [of _ 1]) simp
  then have "cellFlagged (\<lambda>index. index = 59) exampleProxy exampleOctree cellB"
    using octree_cell_flagged_half_open [OF dim, of exampleProxy cellB "\<lambda>index. index = 59"] closest(3,4)
    by (simp add: Let_def)
  with dim cell closest(3,4) show ?thesis by (intro conjI)
qed

text \<open>
  Claim C6 as stated fails: cell 1 of the example lies between the proxy vertices
  \<open>(3, 1, 1)\<close> and \<open>(4, 2, 2)\<close>. The proxy cell \<open>(4, 2, 2)\<close>, number 116, is in the
  inclusive range; with this cell alone in the proxy band the octree cell is not flagged.
\<close>

theorem octree_cell_flagged_inclusive_counterexample:
  "map (locateClosestVertexCartesian exampleProxy (getVertexCoords exampleOctree (getConnect cellB 0)))
      [0, 1, 2] = [3, 1, 1]
   \<and> map (locateClosestVertexCartesian exampleProxy (getVertexCoords exampleOctree (getConnect cellB 7)))
      [0, 1, 2] = [4, 2, 2]
   \<and> long_to_int (getCellLinearId exampleProxy 4 2 2) = 116
   \<and> \<not> cellFlagged (\<lambda>index. index = 116) exampleProxy exampleOctree cellB"
  using closest(3,4) notFlaggedB by (simp add: exampleProxy_simps(2) l2i)

subsection \<open>The coarsest flagged level and the radius\<close>

lemma Min_insert_min:
  "finite A \<Longrightarrow> Min (insert (min a b) A) = Min (insert a (insert b A))"
  by (cases "A = {}") (simp_all add: min.assoc)

lemma fold_min_flagged:
  "fold (\<lambda>cell level. if flagged cell then min level (lvl cell) else level) cells (l0::int)
     = Min (insert l0 (lvl ` set (filter flagged cells)))"
proof (induction cells arbitrary: l0)
  case Nil
  then show ?case by simp
next
  case (Cons c cells)
  have "Min (insert (min l0 (lvl c)) (lvl ` set (filter flagged cells)))
        = Min (insert l0 (insert (lvl c) (lvl ` set (filter flagged cells))))"
    by (rule Min_insert_min) simp
  then show ?case by (simp add: Cons.IH)
qed

lemma coarsestFlaggedLevel_Min:
  "coarsestFlaggedLevel flagged m cells
     = Min (insert 100 ((\<lambda>c. getCellLevel m (getId c)) ` set (filter flagged cells)))"
  unfolding coarsestFlaggedLevel_def by (rule fold_min_flagged)

lemma word8_mono:
  assumes "0 \<le> a" "a \<le> b" "b \<le> 255"
  shows "(word_of_int a :: 8 word) \<le> word_of_int b"
  using assms by (simp add: word_le_def uint_word_of_int take_bit_int_eq_self)

lemma compute_intersect:
  assumes inter: "intersectBoxBox ext (fst (getBoundingBox m)) (snd (getBoundingBox m))
                    (fst (getBoundingBoxLS visitor)) (snd (getBoundingBoxLS visitor)) = (True, C0, C1)"
    and px: "proxy ext nc m visitor C0 C1 = (cmesh, auxLS)"
  shows "LevelSetOctree_computeSizeNarrowBand ext nc m visitor this =
           this\<lparr>RSearch := computeRSearchFromLevel m (word_of_int
              (coarsestFlaggedLevel (cellFlagged (isInNarrowBand ext auxLS) cmesh m) m (getCells m)))\<rparr>"
  using inter px
  by (simp add: LevelSetOctree_computeSizeNarrowBand_def case_prod_beta)

text \<open>
  Claim C4. When the box of the mesh and the box of the surface do not intersect,
  \<open>computeSizeNarrowBand\<close> returns normally and leaves the engine as it was: \<open>RSearch\<close> is
  not written and the store is not touched. A band that was empty stays empty: if no
  membership query answered true before, none does afterwards.
\<close>

theorem octree_no_intersection_leaves_engine:
  assumes "\<not> fst (intersectBoxBox ext (fst (getBoundingBox m_omesh)) (snd (getBoundingBox m_omesh))
                    (fst (getBoundingBoxLS visitor)) (snd (getBoundingBoxLS visitor)))"
  shows "LevelSetOctree_computeSizeNarrowBand ext nc m_omesh visitor this = this
       \<and> RSearch (LevelSetOctree_computeSizeNarrowBand ext nc m_omesh visitor this) = RSearch this
       \<and> info (LevelSetOctree_computeSizeNarrowBand ext nc m_omesh visitor this) = info this
       \<and> ((\<forall>I. \<not> isInNarrowBand ext this I) \<longrightarrow>
            (\<forall>I. \<not> isInNarrowBand ext
                        (LevelSetOctree_computeSizeNarrowBand ext nc m_omesh visitor this) I))"
  using assms by (simp add: LevelSetOctree_computeSizeNarrowBand_def case_prod_beta)

text \<open>The surface far from the cube, on a new engine.\<close>

lemma far_intersection:
  "\<not> fst (intersectBoxBox exampleExternal (fst (getBoundingBox exampleOctree))
      (snd (getBoundingBox exampleOctree)) (fst (getBoundingBoxLS farSurface))
      (snd (getBoundingBoxLS farSurface)))"
  by (simp add: exampleExternal_def exampleOctree_def farSurface_def boxIntersection_def)

theorem octree_no_intersection_leaves_engine_witness:
  "LevelSetOctree_computeSizeNarrowBand exampleExternal (\<lambda>_. 0) exampleOctree farSurface emptyEngine
     = emptyEngine
   \<and> (\<forall>I. \<not> isInNarrowBand exampleExternal
              (LevelSetOctree_computeSizeNarrowBand exampleExternal (\<lambda>_. 0) exampleOctree
                 farSurface emptyEngine) I)"
proof -
  have "\<forall>I. \<not> isInNarrowBand exampleExternal emptyEngine I"
    by (simp add: exampleExternal_def presentAndActive_def emptyEngine_def)
  then show ?thesis
    using octree_no_intersection_leaves_engine [OF far_intersection, of "\<lambda>_. 0" emptyEngine]
    by simp
qed

text \<open>
  Claim C5. When the boxes intersect, some cell is flagged and the levels of the flagged
  cells do not exceed the start value 100 of the search, \<open>computeSizeNarrowBand\<close> sets
  \<open>RSearch\<close> to \<open>levelToSize(L) * sqrt(11) / 2\<close> for the smallest level \<open>L\<close> among the flagged
  cells; \<open>computeRSearchFromLevel\<close> is this formula at every level.
\<close>

theorem octree_radius_from_coarsest_flagged:
  assumes inter: "intersectBoxBox ext (fst (getBoundingBox m_omesh)) (snd (getBoundingBox m_omesh))
                    (fst (getBoundingBoxLS visitor)) (snd (getBoundingBoxLS visitor)) = (True, C0, C1)"
    and px: "proxy ext nc m_omesh visitor C0 C1 = (cmesh, auxLS)"
    and F: "flaggedCells = filter (cellFlagged (isInNarrowBand ext auxLS) cmesh m_omesh) (getCells m_omesh)"
    and ne: "flaggedCells \<noteq> []"
    and le: "\<forall>c \<in> set flaggedCells. getCellLevel m_omesh (getId c) \<le> 100"
  shows "RSearch (LevelSetOctree_computeSizeNarrowBand ext nc m_omesh visitor this)
           = levelToSize m_omesh
               (word_of_int (Min ((\<lambda>c. getCellLevel m_omesh (getId c)) ` set flaggedCells)))
               * sqrt 11 / 2
       \<and> (\<forall>level. computeRSearchFromLevel m_omesh level = levelToSize m_omesh level * sqrt 11 / 2)"
proof -
  let ?L = "(\<lambda>c. getCellLevel m_omesh (getId c)) ` set flaggedCells"
  have fin: "finite ?L" and nonempty: "?L \<noteq> {}" using ne by simp_all
  have "Min ?L \<in> ?L" using fin nonempty by (rule Min_in)
  then have small: "Min ?L \<le> 100" using le by auto
  have "Min (insert 100 ?L) = min 100 (Min ?L)"
    using fin nonempty by (rule Min_insert)
  with small have "Min (insert 100 ?L) = Min ?L"
    by (simp only: min_absorb2)
  then have "coarsestFlaggedLevel (cellFlagged (isInNarrowBand ext auxLS) cmesh m_omesh) m_omesh
               (getCells m_omesh) = Min ?L"
    by (simp add: coarsestFlaggedLevel_Min F)
  then show ?thesis
    by (simp add: compute_intersect [OF inter px] computeRSearchFromLevel_def)
qed

text \<open>
  In the example both cells are flagged, the coarsest level is 1 and the radius is
  \<open>(1/2) * sqrt(11) / 2\<close>.
\<close>

lemma example_intersection:
  "intersectBoxBox exampleExternal (fst (getBoundingBox exampleOctree)) (snd (getBoundingBox exampleOctree))
     (fst (getBoundingBoxLS exampleSurface)) (snd (getBoundingBoxLS exampleSurface))
     = (True, (\<lambda>_. 0), (\<lambda>_. 1))"
  by (simp add: exampleExternal_def exampleOctree_def exampleSurface_def boxIntersection_def)

lemma example_levels:
  "getCellLevel exampleOctree (getId cellA) = 1"
  "getCellLevel exampleOctree (getId cellB) = 2"
  "getCellLevel exampleOctree (getId rootCell) = 0"
  "getCells exampleOctree = [cellA, cellB]"
  "levelToSize exampleOctree level = 1 / 2 ^ unat level"
  by (simp_all add: exampleOctree_def cellA_def cellB_def rootCell_def)

theorem octree_radius_from_coarsest_flagged_witness:
  "filter (cellFlagged (isInNarrowBand exampleExternal exampleAux) exampleProxy exampleOctree)
      (getCells exampleOctree) = [cellA, cellB]
   \<and> RSearch (LevelSetOctree_computeSizeNarrowBand exampleExternal (\<lambda>_. 0) exampleOctree
               exampleSurface emptyEngine) = sqrt 11 / 4"
proof -
  have px: "proxy exampleExternal (\<lambda>_. 0) exampleOctree exampleSurface (\<lambda>_. 0) (\<lambda>_. 1)
              = (exampleProxy, exampleAux)"
    by (simp add: exampleProxy_def exampleAux_def)
  have F: "[cellA, cellB] = filter (cellFlagged (isInNarrowBand exampleExternal exampleAux)
             exampleProxy exampleOctree) (getCells exampleOctree)"
    by (simp add: example_levels flaggedA flaggedB)
  have le: "\<forall>c \<in> set [cellA, cellB]. getCellLevel exampleOctree (getId c) \<le> 100"
    by (simp add: example_levels)
  have ne: "[cellA, cellB] \<noteq> []" by simp
  have "RSearch (LevelSetOctree_computeSizeNarrowBand exampleExternal (\<lambda>_. 0) exampleOctree
               exampleSurface emptyEngine)
          = levelToSize exampleOctree
              (word_of_int (Min ((\<lambda>c. getCellLevel exampleOctree (getId c)) ` set [cellA, cellB])))
              * sqrt 11 / 2"
    using octree_radius_from_coarsest_flagged [OF example_intersection px F ne le, of emptyEngine]
    by (rule conjunct1)
  then have "RSearch (LevelSetOctree_computeSizeNarrowBand exampleExternal (\<lambda>_. 0) exampleOctree
               exampleSurface emptyEngine) = sqrt 11 / 4"
    by (simp add: example_levels)
  with F [symmetric] show ?thesis by (intro conjI)
qed

text \<open>
  Claim C9. Let \<open>levelToSize\<close> be non-increasing in the level and the levels of the mesh
  be non-negative. In the list of cells the radius is computed from, replacing a flagged
  cell \<open>c\<close> (the coarsest one in particular) by cells \<open>kids\<close> of levels at least that of
  \<open>c\<close> does not increase the radius, and replacing it by a flagged cell \<open>c'\<close> of a level at
  most that of \<open>c\<close> does not decrease it. The flags of all cells are those of one
  predicate: the surface does not move.
\<close>

theorem octree_radius_monotone_in_refinement:
  assumes mono: "\<forall>l1 l2. l1 \<le> l2 \<longrightarrow> levelToSize m_omesh l2 \<le> levelToSize m_omesh l1"
    and nonneg: "\<forall>I. 0 \<le> getCellLevel m_omesh I"
    and c: "flagged c"
    and finer: "\<forall>k \<in> set kids. getCellLevel m_omesh (getId c) \<le> getCellLevel m_omesh (getId k)"
    and coarser: "flagged c'" "getCellLevel m_omesh (getId c') \<le> getCellLevel m_omesh (getId c)"
  shows "computeRSearchFromLevel m_omesh
           (word_of_int (coarsestFlaggedLevel flagged m_omesh (pre @ kids @ post)))
           \<le> computeRSearchFromLevel m_omesh
               (word_of_int (coarsestFlaggedLevel flagged m_omesh (pre @ c # post)))
       \<and> computeRSearchFromLevel m_omesh
           (word_of_int (coarsestFlaggedLevel flagged m_omesh (pre @ c # post)))
           \<le> computeRSearchFromLevel m_omesh
               (word_of_int (coarsestFlaggedLevel flagged m_omesh (pre @ c' # post)))"
proof -
  let ?lvl = "\<lambda>x. getCellLevel m_omesh (getId x)"
  let ?M = "\<lambda>cells. Min (insert 100 (?lvl ` set (filter flagged cells)))"
  have bounds: "0 \<le> ?M cells \<and> ?M cells \<le> 100" for cells
    using nonneg by (auto simp: Min_le_iff)
  have rs_mono: "computeRSearchFromLevel m_omesh (word_of_int (?M ys))
                   \<le> computeRSearchFromLevel m_omesh (word_of_int (?M xs))"
    if "?M xs \<le> ?M ys" for xs ys
  proof -
    have "(word_of_int (?M xs) :: 8 word) \<le> word_of_int (?M ys)"
      using that bounds [of xs] bounds [of ys] by (intro word8_mono) linarith+
    then have "levelToSize m_omesh (word_of_int (?M ys)) \<le> levelToSize m_omesh (word_of_int (?M xs))"
      using mono by blast
    then show ?thesis
      by (simp add: computeRSearchFromLevel_def divide_right_mono mult_right_mono)
  qed
  have 1: "?M (pre @ c # post) \<le> ?M (pre @ kids @ post)"
  proof (rule Min.boundedI)
    show "finite (insert 100 (?lvl ` set (filter flagged (pre @ kids @ post))))" by simp
    show "insert 100 (?lvl ` set (filter flagged (pre @ kids @ post))) \<noteq> {}" by simp
    fix a assume a: "a \<in> insert 100 (?lvl ` set (filter flagged (pre @ kids @ post)))"
    have cin: "?lvl c \<in> insert 100 (?lvl ` set (filter flagged (pre @ c # post)))"
      using c by simp
    have low: "?M (pre @ c # post) \<le> ?lvl c"
      using cin by (intro Min_le) simp_all
    from a consider "a = 100" | x where "x \<in> set pre \<union> set post" "flagged x" "a = ?lvl x"
      | k where "k \<in> set kids" "a = ?lvl k"
      by auto
    then show "?M (pre @ c # post) \<le> a"
    proof cases
      case 1
      then show ?thesis by (intro Min_le) simp_all
    next
      case 2
      then show ?thesis by (intro Min_le) auto
    next
      case 3
      then show ?thesis using finer low by force
    qed
  qed
  have 2: "?M (pre @ c' # post) \<le> ?M (pre @ c # post)"
  proof (rule Min.boundedI)
    show "finite (insert 100 (?lvl ` set (filter flagged (pre @ c # post))))" by simp
    show "insert 100 (?lvl ` set (filter flagged (pre @ c # post))) \<noteq> {}" by simp
    fix a assume a: "a \<in> insert 100 (?lvl ` set (filter flagged (pre @ c # post)))"
    have low: "?M (pre @ c' # post) \<le> ?lvl c'"
      using coarser(1) by (intro Min_le) simp_all
    from a c consider "a = 100" | x where "x \<in> set pre \<union> set post" "flagged x" "a = ?lvl x"
      | "a = ?lvl c"
      by auto
    then show "?M (pre @ c' # post) \<le> a"
    proof cases
      case 1
      then show ?thesis by (intro Min_le) simp_all
    next
      case 2
      then show ?thesis by (intro Min_le) auto
    next
      case 3
      then show ?thesis using coarser(2) low by linarith
    qed
  qed
  show ?thesis
    unfolding coarsestFlaggedLevel_Min using rs_mono [OF 1] rs_mono [OF 2] by simp
qed

text \<open>
  Next to cell 1 (level 2): cell 0 (level 1) replaced by two cells of level 2, and by the
  root (level 0).
\<close>

lemma levelToSize_mono:
  "\<forall>l1 l2. l1 \<le> l2 \<longrightarrow> levelToSize exampleOctree l2 \<le> levelToSize exampleOctree l1"
  by (simp add: example_levels word_le_nat_alt frac_le)

theorem octree_radius_monotone_in_refinement_witness:
  "computeRSearchFromLevel exampleOctree
     (word_of_int (coarsestFlaggedLevel (\<lambda>_. True) exampleOctree ([cellB] @ [cellB, cellB] @ [])))
     \<le> computeRSearchFromLevel exampleOctree
         (word_of_int (coarsestFlaggedLevel (\<lambda>_. True) exampleOctree ([cellB] @ cellA # [])))
   \<and> computeRSearchFromLevel exampleOctree
       (word_of_int (coarsestFlaggedLevel (\<lambda>_. True) exampleOctree ([cellB] @ cellA # [])))
     \<le> computeRSearchFromLevel exampleOctree
         (word_of_int (coarsestFlaggedLevel (\<lambda>_. True) exampleOctree ([cellB] @ rootCell # [])))"
proof -
  have nonneg: "\<forall>I. 0 \<le> getCellLevel exampleOctree I"
    by (simp add: exampleOctree_def)
  have finer: "\<forall>k \<in> set [cellB, cellB].
      getCellLevel exampleOctree (getId cellA) \<le> getCellLevel exampleOctree (getId k)"
    by (simp add: example_levels)
  have coarser: "getCellLevel exampleOctree (getId rootCell) \<le> getCellLevel exampleOctree (getId cellA)"
    by (simp add: example_levels)
  show ?thesis
    by (rule octree_radius_monotone_in_refinement
        [OF levelToSize_mono nonneg TrueI finer TrueI coarser])
qed

subsection \<open>The band after an adaptation\<close>

lemma fold_cond_insert:
  "fold (\<lambda>x A. if P x then insert x A else A) xs A = A \<union> {x \<in> set xs. P x}"
  by (induction xs arbitrary: A) auto

lemma snapshotBand_eq:
  "snapshotBand ext this = {I \<in> fst ` set (info this). isInNarrowBand ext this I}"
  by (simp add: snapshotBand_def fold_cond_insert)

lemma eraseParents_eq:
  "eraseParents ext this ps (flag, nb) =
     (flag \<or> (\<exists>p \<in> set ps. isInNarrowBand ext this p),
      nb - {p \<in> set ps. isInNarrowBand ext this p})"
  by (induction ps arbitrary: flag nb) auto

text \<open>The flag the second loop leaves for a record.\<close>

lemma eraseLoop_eq:
  "eraseLoop ext this mapper nb =
     (map (\<lambda>r. entity r = ENTITY_CELL \<and> (\<exists>p \<in> set (previous r). isInNarrowBand ext this p)) mapper,
      nb - {p. \<exists>r \<in> set mapper. entity r = ENTITY_CELL \<and> p \<in> set (previous r)
                 \<and> isInNarrowBand ext this p})"
proof (induction mapper arbitrary: nb)
  case Nil
  then show ?case by simp
next
  case (Cons r mapper)
  show ?case
    by (simp add: Cons.IH eraseParents_eq) blast
qed

lemma fold_insert_eq: "fold insert xs A = set xs \<union> A"
  by (induction xs arbitrary: A) auto

lemma insertLoop_eq:
  "insertLoop mapper (map f mapper) nb =
     nb \<union> {c. \<exists>r \<in> set mapper. entity r = ENTITY_CELL \<and> f r \<and> c \<in> set (current r)}"
proof (induction mapper arbitrary: nb)
  case Nil
  then show ?case by simp
next
  case (Cons r mapper)
  show ?case
  proof (cases "entity r = ENTITY_CELL \<and> f r")
    case True
    then show ?thesis by (simp add: Cons.IH fold_insert_eq) blast
  next
    case False
    then show ?thesis by (simp add: Cons.IH) blast
  qed
qed

lemma updatedBand_eq:
  "updatedBand ext this mapper =
     ({I \<in> fst ` set (info this). isInNarrowBand ext this I}
        - {p. \<exists>r \<in> set mapper. entity r = ENTITY_CELL \<and> p \<in> set (previous r)
                 \<and> isInNarrowBand ext this p})
     \<union> {c. \<exists>r \<in> set mapper. entity r = ENTITY_CELL
                 \<and> (\<exists>p \<in> set (previous r). isInNarrowBand ext this p)
                 \<and> c \<in> set (current r)}"
  by (simp add: updatedBand_def snapshotBand_eq eraseLoop_eq insertLoop_eq)

text \<open>
  Claim C2. The working set \<open>nb\<close> starts as the set of the identifiers of the store that
  are in the band. After the loops it is that set, without every in-band parent of a cell
  record, together with every child of a cell record that has an in-band parent. A record
  that is not of kind \<open>CELL\<close> or has no in-band parent can be dropped from the batch
  without changing \<open>nb\<close>. In particular the children of a merge whose parents were all in
  the band are in \<open>nb\<close>, and a batch made of one merge with no parent in the band leaves
  \<open>nb\<close> as it started: the merged cell is in it only if it was before.
\<close>

theorem octree_band_after_adaptation:
  "updatedBand ext this mapper =
     ({I \<in> fst ` set (info this). isInNarrowBand ext this I}
        - {p. \<exists>r \<in> set mapper. entity r = ENTITY_CELL \<and> p \<in> set (previous r)
                 \<and> isInNarrowBand ext this p})
     \<union> {c. \<exists>r \<in> set mapper. entity r = ENTITY_CELL
                 \<and> (\<exists>p \<in> set (previous r). isInNarrowBand ext this p)
                 \<and> c \<in> set (current r)}
   \<and> (\<forall>r pre post. mapper = pre @ r # post
          \<and> (entity r \<noteq> ENTITY_CELL \<or> (\<forall>p \<in> set (previous r). \<not> isInNarrowBand ext this p))
        \<longrightarrow> updatedBand ext this mapper = updatedBand ext this (pre @ post))
   \<and> (\<forall>r \<in> set mapper. entity r = ENTITY_CELL \<and> previous r \<noteq> []
          \<and> (\<forall>p \<in> set (previous r). isInNarrowBand ext this p)
        \<longrightarrow> set (current r) \<subseteq> updatedBand ext this mapper)
   \<and> (\<forall>r. entity r = ENTITY_CELL \<and> (\<forall>p \<in> set (previous r). \<not> isInNarrowBand ext this p)
        \<longrightarrow> updatedBand ext this [r] = {I \<in> fst ` set (info this). isInNarrowBand ext this I})"
proof (intro conjI allI impI ballI)
  show "updatedBand ext this mapper =
     ({I \<in> fst ` set (info this). isInNarrowBand ext this I}
        - {p. \<exists>r \<in> set mapper. entity r = ENTITY_CELL \<and> p \<in> set (previous r)
                 \<and> isInNarrowBand ext this p})
     \<union> {c. \<exists>r \<in> set mapper. entity r = ENTITY_CELL
                 \<and> (\<exists>p \<in> set (previous r). isInNarrowBand ext this p)
                 \<and> c \<in> set (current r)}"
    by (rule updatedBand_eq)
next
  fix r pre post
  assume "mapper = pre @ r # post
          \<and> (entity r \<noteq> ENTITY_CELL \<or> (\<forall>p \<in> set (previous r). \<not> isInNarrowBand ext this p))"
  then show "updatedBand ext this mapper = updatedBand ext this (pre @ post)"
    unfolding updatedBand_eq by auto
next
  fix r
  assume "r \<in> set mapper"
    and "entity r = ENTITY_CELL \<and> previous r \<noteq> []
          \<and> (\<forall>p \<in> set (previous r). isInNarrowBand ext this p)"
  moreover from this obtain p where "p \<in> set (previous r)" by (cases "previous r") auto
  ultimately show "set (current r) \<subseteq> updatedBand ext this mapper"
    unfolding updatedBand_eq by auto
next
  fix r :: AdaptionInfo
  assume "entity r = ENTITY_CELL \<and> (\<forall>p \<in> set (previous r). \<not> isInNarrowBand ext this p)"
  then show "updatedBand ext this [r] = {I \<in> fst ` set (info this). isInNarrowBand ext this I}"
    unfolding updatedBand_eq by auto
qed

text \<open>
  The band holds the cells 1 to 8 and 40: the merge of 1 to 8 puts cell 9 in the band, the
  vertex record and the merge of 11 to 18 change nothing, and cell 19 stays out.
\<close>

lemma bandEngine_band:
  "isInNarrowBand exampleExternal bandEngine I \<longleftrightarrow> I \<in> {1, 2, 3, 4, 5, 6, 7, 8, 40}"
  by (simp add: exampleExternal_def presentAndActive_def bandEngine_def)

theorem octree_band_after_adaptation_witness:
  "9 \<in> updatedBand exampleExternal bandEngine [mergeInBand, mergeOutOfBand, vertexRecord]
   \<and> updatedBand exampleExternal bandEngine [mergeInBand, mergeOutOfBand, vertexRecord]
       = updatedBand exampleExternal bandEngine [mergeInBand, mergeOutOfBand]
   \<and> updatedBand exampleExternal bandEngine [mergeInBand, mergeOutOfBand]
       = updatedBand exampleExternal bandEngine [mergeInBand]
   \<and> 19 \<notin> updatedBand exampleExternal bandEngine [mergeOutOfBand]"
proof -
  note t3 = octree_band_after_adaptation
    [of exampleExternal bandEngine "[mergeInBand, mergeOutOfBand, vertexRecord]"]
  note t2 = octree_band_after_adaptation [of exampleExternal bandEngine "[mergeInBand, mergeOutOfBand]"]
  have allIn: "entity mergeInBand = ENTITY_CELL \<and> previous mergeInBand \<noteq> []
      \<and> (\<forall>p \<in> set (previous mergeInBand). isInNarrowBand exampleExternal bandEngine p)"
    by (simp add: mergeInBand_def bandEngine_band)
  have noneIn: "entity mergeOutOfBand = ENTITY_CELL
      \<and> (\<forall>p \<in> set (previous mergeOutOfBand). \<not> isInNarrowBand exampleExternal bandEngine p)"
    by (simp add: mergeOutOfBand_def bandEngine_band)
  have notCell: "entity vertexRecord \<noteq> ENTITY_CELL"
    by (simp add: vertexRecord_def)
  have mem: "mergeInBand \<in> set [mergeInBand, mergeOutOfBand, vertexRecord]" by simp
  have "set (current mergeInBand) \<subseteq> updatedBand exampleExternal bandEngine
          [mergeInBand, mergeOutOfBand, vertexRecord]"
    by (rule t3 [THEN conjunct2, THEN conjunct2, THEN conjunct1, rule_format, OF mem allIn])
  then have a: "9 \<in> updatedBand exampleExternal bandEngine [mergeInBand, mergeOutOfBand, vertexRecord]"
    by (simp add: mergeInBand_def)
  have "[mergeInBand, mergeOutOfBand, vertexRecord] = [mergeInBand, mergeOutOfBand] @ vertexRecord # []
      \<and> (entity vertexRecord \<noteq> ENTITY_CELL
           \<or> (\<forall>p \<in> set (previous vertexRecord). \<not> isInNarrowBand exampleExternal bandEngine p))"
    using notCell by simp
  then have "updatedBand exampleExternal bandEngine [mergeInBand, mergeOutOfBand, vertexRecord]
       = updatedBand exampleExternal bandEngine ([mergeInBand, mergeOutOfBand] @ [])"
    by (rule t3 [THEN conjunct2, THEN conjunct1, rule_format])
  then have b: "updatedBand exampleExternal bandEngine [mergeInBand, mergeOutOfBand, vertexRecord]
       = updatedBand exampleExternal bandEngine [mergeInBand, mergeOutOfBand]"
    by simp
  have "[mergeInBand, mergeOutOfBand] = [mergeInBand] @ mergeOutOfBand # []
      \<and> (entity mergeOutOfBand \<noteq> ENTITY_CELL
           \<or> (\<forall>p \<in> set (previous mergeOutOfBand). \<not> isInNarrowBand exampleExternal bandEngine p))"
    using noneIn by simp
  then have "updatedBand exampleExternal bandEngine [mergeInBand, mergeOutOfBand]
       = updatedBand exampleExternal bandEngine ([mergeInBand] @ [])"
    by (rule t2 [THEN conjunct2, THEN conjunct1, rule_format])
  then have c: "updatedBand exampleExternal bandEngine [mergeInBand, mergeOutOfBand]
       = updatedBand exampleExternal bandEngine [mergeInBand]"
    by simp
  have "updatedBand exampleExternal bandEngine [mergeOutOfBand]
       = {I \<in> fst ` set (info bandEngine). isInNarrowBand exampleExternal bandEngine I}"
    by (rule t2 [THEN conjunct2, THEN conjunct2, THEN conjunct2, rule_format, OF noneIn])
  then have d: "19 \<notin> updatedBand exampleExternal bandEngine [mergeOutOfBand]"
    by (simp add: bandEngine_band)
  from a b c d show ?thesis by (intro conjI)
qed

text \<open>
  Claim C8, as amended. With an empty batch the working set is the band as it was, the
  store is left as it was, and the radius returned (and assigned by \<open>update\<close> after the
  visitor's call) is \<open>levelToSize(L) * sqrt(11) / 2\<close> for \<open>L\<close> the minimum of 100 and the levels
  of the cells in the band: a recomputed value, equal to the old \<open>RSearch\<close> only when the
  old one already was this value.
\<close>

theorem octree_empty_batch_recomputes_radius:
  "updatedBand ext this [] = {I \<in> fst ` set (info this). isInNarrowBand ext this I}
   \<and> LevelSetOctree_updateSizeNarrowBand ext m_omesh [] this
       = (computeRSearchFromLevel m_omesh (word_of_int (Min (insert 100
            (getCellLevel m_omesh ` {I \<in> fst ` set (info this). isInNarrowBand ext this I})))), this)
   \<and> LevelSetOctree_update ext m_omesh visitor [] this
       = (updateLSInNarrowBandO visitor m_omesh this []
            (computeRSearchFromLevel m_omesh (word_of_int (Min (insert 100
              (getCellLevel m_omesh ` {I \<in> fst ` set (info this). isInNarrowBand ext this I}))))))
         \<lparr>RSearch := computeRSearchFromLevel m_omesh (word_of_int (Min (insert 100
              (getCellLevel m_omesh ` {I \<in> fst ` set (info this). isInNarrowBand ext this I}))))\<rparr>"
  by (simp add: LevelSetOctree_updateSizeNarrowBand_def LevelSetOctree_update_def Let_def
      updatedBand_def snapshotBand_eq)

text \<open>
  Claim C8 as stated fails: the band holds cell 1 (level 2) and \<open>RSearch\<close> is the radius of
  level 1, \<open>sqrt(11) / 4\<close>; after an update with an empty batch and a visitor that changes
  nothing, \<open>RSearch\<close> is the radius of level 2, \<open>sqrt(11) / 8\<close>.
\<close>

lemma fineEngine_band:
  "{I \<in> fst ` set (info fineEngine). isInNarrowBand exampleExternal fineEngine I} = {1}"
  by (auto simp: fineEngine_def exampleExternal_def presentAndActive_def)

lemma fineEngine_new_radius:
  "fst (LevelSetOctree_updateSizeNarrowBand exampleExternal exampleOctree [] fineEngine) = sqrt 11 / 8"
  by (simp add: LevelSetOctree_updateSizeNarrowBand_def Let_def updatedBand_def snapshotBand_eq
      fineEngine_band computeRSearchFromLevel_def exampleOctree_def)

theorem octree_empty_batch_counterexample:
  "isInNarrowBand exampleExternal fineEngine 1
   \<and> RSearch fineEngine = sqrt 11 / 4
   \<and> RSearch (LevelSetOctree_update exampleExternal exampleOctree exampleSurface [] fineEngine)
        = sqrt 11 / 8
   \<and> RSearch (LevelSetOctree_update exampleExternal exampleOctree exampleSurface [] fineEngine)
        \<noteq> RSearch fineEngine"
proof -
  have new: "RSearch (LevelSetOctree_update exampleExternal exampleOctree exampleSurface [] fineEngine)
        = sqrt 11 / 8"
    using fineEngine_new_radius
    by (simp add: LevelSetOctree_update_def case_prod_beta Let_def)
  have old: "RSearch fineEngine = sqrt 11 / 4"
    by (simp add: fineEngine_def)
  have inBand: "isInNarrowBand exampleExternal fineEngine 1"
    by (simp add: fineEngine_def exampleExternal_def presentAndActive_def)
  have differ: "sqrt 11 / 8 \<noteq> sqrt 11 / 4"
    by simp
  show ?thesis
    unfolding new old by (intro conjI inBand refl differ)
qed

text \<open>
  Claim C10. \<open>updateSizeNarrowBand\<close> leaves the engine state (store and \<open>RSearch\<close>) as it
  found it and hands the new radius back as its value. In \<open>update\<close> the visitor is called on
  that unchanged state, so the \<open>RSearch\<close> it can read there is the old one, and gets the new
  radius as an argument; \<open>RSearch\<close> is assigned the new radius on the state the visitor
  returns.
\<close>

theorem octree_update_frame:
  "snd (LevelSetOctree_updateSizeNarrowBand ext m_omesh mapper this) = this
   \<and> LevelSetOctree_update ext m_omesh visitor mapper this
       = (updateLSInNarrowBandO visitor m_omesh this mapper
            (fst (LevelSetOctree_updateSizeNarrowBand ext m_omesh mapper this)))
         \<lparr>RSearch := fst (LevelSetOctree_updateSizeNarrowBand ext m_omesh mapper this)\<rparr>"
  by (simp add: LevelSetOctree_updateSizeNarrowBand_def LevelSetOctree_update_def Let_def)

text \<open>
  The probing surface on the engine whose \<open>RSearch\<close> is \<open>sqrt(11) / 4\<close>: during the call it
  reads \<open>sqrt(11) / 4\<close> in the engine and receives \<open>sqrt(11) / 8\<close>; afterwards \<open>RSearch\<close> is
  \<open>sqrt(11) / 8\<close>.
\<close>

theorem octree_update_frame_witness:
  "LevelSetOctree_update exampleExternal exampleOctree probeSurface [] fineEngine
     = \<lparr>info = [(0, \<lparr>lsvalue = sqrt 11 / 4, active = 0\<rparr>), (1, \<lparr>lsvalue = sqrt 11 / 8, active = 0\<rparr>)],
        RSearch = sqrt 11 / 8\<rparr>"
proof -
  have "LevelSetOctree_update exampleExternal exampleOctree probeSurface [] fineEngine
      = (updateLSInNarrowBandO probeSurface exampleOctree fineEngine [] (sqrt 11 / 8))
        \<lparr>RSearch := sqrt 11 / 8\<rparr>"
    using octree_update_frame [of exampleExternal exampleOctree "[]" fineEngine probeSurface]
    by (simp only: fineEngine_new_radius)
  then show ?thesis
    by (simp add: probeSurface_def fineEngine_def)
qed

end
